theory Spec2Isabelle
  imports Main
begin

section \<open>JavaScript values used by the servers\<close>

text \<open>
  A user id travels as a JavaScript number (the orchestrator signs \<open>userId: 1\<close>) or as a
  string (the newer tool servers call \<open>String(decoded.userId)\<close>).
\<close>

datatype js_id = IdNum int | IdStr string

definition digit_char :: "nat \<Rightarrow> char" where
  "digit_char n = ''0123456789'' ! (n mod 10)"

fun decimal :: "nat \<Rightarrow> string" where
  "decimal n =
     (if n < 10 then [digit_char n] else decimal (n div 10) @ [digit_char (n mod 10)])"

definition Number_toString :: "int \<Rightarrow> string" where
  "Number_toString i = (if i < 0 then CHR ''-'' # decimal (nat (- i)) else decimal (nat i))"

text \<open>\<open>String(v)\<close> for a user id.\<close>

fun String_js :: "js_id \<Rightarrow> string" where
  "String_js (IdNum i) = Number_toString i"
| "String_js (IdStr s) = s"

text \<open>Truthiness: \<open>0\<close> and \<open>""\<close> are falsy, like \<open>undefined\<close> and \<open>null\<close>.\<close>

fun truthy_id :: "js_id option \<Rightarrow> bool" where
  "truthy_id None = False"
| "truthy_id (Some (IdNum i)) = (i \<noteq> 0)"
| "truthy_id (Some (IdStr s)) = (s \<noteq> [])"

fun truthy_str :: "string option \<Rightarrow> bool" where
  "truthy_str None = False"
| "truthy_str (Some s) = (s \<noteq> [])"

fun truthy_num :: "int option \<Rightarrow> bool" where
  "truthy_num None = False"
| "truthy_num (Some n) = (n \<noteq> 0)"

text \<open>
  A parsed JSON value (the \<open>any\<close> that \<open>JSON.parse\<close> returns); numbers are kept as
  integers. \<open>truthy\<close> is JavaScript's truthiness and \<open>get_prop\<close> the optional property
  read \<open>v?.name\<close>, which is \<open>undefined\<close> on everything but an object with that key.
\<close>

datatype json =
    JNull
  | JBool bool
  | JNum int
  | JStr string
  | JArr "json list"
  | JObj "(string \<times> json) list"

fun truthy :: "json option \<Rightarrow> bool" where
  "truthy None = False"
| "truthy (Some JNull) = False"
| "truthy (Some (JBool b)) = b"
| "truthy (Some (JNum n)) = (n \<noteq> 0)"
| "truthy (Some (JStr s)) = (s \<noteq> [])"
| "truthy (Some (JArr xs)) = True"
| "truthy (Some (JObj fs)) = True"

fun get_prop :: "json \<Rightarrow> string \<Rightarrow> json option" where
  "get_prop (JObj fs) name = map_of fs name"
| "get_prop v name = None"

text \<open>\<open>s.includes(sub)\<close>, \<open>s.toLowerCase()\<close> on the ASCII letters, \<open>s.startsWith(p)\<close>.\<close>

fun str_includes :: "string \<Rightarrow> string \<Rightarrow> bool" where
  "str_includes [] sub = (sub = [])"
| "str_includes (c # cs) sub = (take (length sub) (c # cs) = sub \<or> str_includes cs sub)"

definition lower_char :: "char \<Rightarrow> char" where
  "lower_char c =
     (case map_of (zip ''ABCDEFGHIJKLMNOPQRSTUVWXYZ'' ''abcdefghijklmnopqrstuvwxyz'') c of
        None \<Rightarrow> c
      | Some l \<Rightarrow> l)"

definition toLowerCase :: "string \<Rightarrow> string" where
  "toLowerCase s = map lower_char s"

definition startsWith :: "string \<Rightarrow> string \<Rightarrow> bool" where
  "startsWith s p = (take (length p) s = p)"

section \<open>Token Store (db.ts)\<close>

text \<open>
  A row of the Supabase table \<open>tokens\<close>. The columns \<open>id\<close>, \<open>created_at\<close> and
  \<open>updated_at\<close> are maintained by the database and dropped by \<open>normalize\<close>; they are
  left out. \<open>user_id\<close> is kept in the text form in which supabase-js sends it
  (\<open>.eq("user_id", 1)\<close> and \<open>.eq("user_id", "1")\<close> are the same query).
\<close>

record TokenRow =
  user_id :: string
  provider :: string
  access_token :: string
  refresh_token :: "string option"
  realm_id :: "string option"
  expires_at :: "int option"

text \<open>What \<open>normalize\<close> returns, and what \<open>upsertTokens\<close> takes.\<close>

record Tokens =
  userId :: string
  t_provider :: string
  t_access_token :: string
  t_refresh_token :: "string option"
  realmId :: "string option"
  t_expires_at :: "int option"

record TokensInput =
  i_userId :: js_id
  i_provider :: string
  i_access_token :: string
  i_refresh_token :: "string option"
  i_realmId :: "string option"
  i_expires_at :: "int option"

text \<open>The reply of a supabase-js call: \<open>{ data, error }\<close>, the error by its code.\<close>

record 'a pg_reply =
  data :: "'a option"
  error :: "string option"

text \<open>
  The backing store, as the spec treats it: a row store with an atomic upsert per key.
  \<open>db_fault\<close> is an outage: while it is set every call answers with that error.
  Every call to the store, to the provider and to the upstream API is appended to
  \<open>trace\<close>.
\<close>

record http_request =
  url :: string
  verb :: string
  bearer :: string
  content :: "json option"

datatype event =
    DbSelect string string
  | DbUpsert TokenRow
  | TokenEndpoint string
  | ApiFetch http_request

record world =
  tokens :: "TokenRow list"
  db_fault :: "string option"
  trace :: "event list"

definition key_is :: "string \<Rightarrow> string \<Rightarrow> TokenRow \<Rightarrow> bool" where
  "key_is u p r = (user_id r = u \<and> provider r = p)"

definition row_key :: "TokenRow \<Rightarrow> string \<times> string" where
  "row_key r = (user_id r, provider r)"

text \<open>
  \<open>.select("*").eq("user_id", u).eq("provider", p).single()\<close>: one matching row is the
  data; none, or more than one, is the error PGRST116.
\<close>

definition select_single :: "world \<Rightarrow> string \<Rightarrow> string \<Rightarrow> TokenRow pg_reply" where
  "select_single w u p =
     (case db_fault w of
        Some c \<Rightarrow> \<lparr>data = None, error = Some c\<rparr>
      | None \<Rightarrow>
          (case filter (key_is u p) (tokens w) of
             [r] \<Rightarrow> \<lparr>data = Some r, error = None\<rparr>
           | _ \<Rightarrow> \<lparr>data = None, error = Some ''PGRST116''\<rparr>))"

text \<open>
  \<open>.upsert(payload, { onConflict: "user_id,provider" })\<close>: the row with the payload's key
  takes the payload's columns, and a payload with a new key is inserted.
\<close>

fun upsert_row :: "TokenRow \<Rightarrow> TokenRow list \<Rightarrow> TokenRow list" where
  "upsert_row p [] = [p]"
| "upsert_row p (r # rs) = (if row_key r = row_key p then p # rs else r # upsert_row p rs)"

definition normalize_row :: "TokenRow option \<Rightarrow> Tokens option" where
  "normalize_row row =
     (case row of
        None \<Rightarrow> None
      | Some r \<Rightarrow>
          Some \<lparr>userId = user_id r, t_provider = provider r, t_access_token = access_token r,
                t_refresh_token = refresh_token r, realmId = realm_id r,
                t_expires_at = expires_at r\<rparr>)"

datatype err =
    DbError string
  | MissingContext
  | NotConnected
  | NetworkError
  | JsonSyntaxError
  | RefreshFailed nat string
  | QboError nat string
  | NoAccessTokenAfterRefresh
  | UnauthorizedAfterRefresh

definition getTokens :: "js_id \<Rightarrow> string \<Rightarrow> world \<Rightarrow> (err + Tokens option) \<times> world" where
  "getTokens uid prov w =
     (let r = select_single w (String_js uid) prov;
          w' = w\<lparr>trace := trace w @ [DbSelect (String_js uid) prov]\<rparr>
      in case error r of
           Some c \<Rightarrow> if c \<noteq> ''PGRST116'' then (Inl (DbError c), w') else (Inr (normalize_row (data r)), w')
         | None \<Rightarrow> (Inr (normalize_row (data r)), w'))"

definition payload_of :: "TokensInput \<Rightarrow> TokenRow" where
  "payload_of row =
     \<lparr>user_id = String_js (i_userId row), provider = i_provider row,
      access_token = i_access_token row, refresh_token = i_refresh_token row,
      realm_id = i_realmId row, expires_at = i_expires_at row\<rparr>"

definition upsertTokens :: "TokensInput \<Rightarrow> world \<Rightarrow> (err + unit) \<times> world" where
  "upsertTokens row w =
     (let payload = payload_of row;
          w' = w\<lparr>trace := trace w @ [DbUpsert payload]\<rparr>
      in case db_fault w of
           Some c \<Rightarrow> (Inl (DbError c), w')
         | None \<Rightarrow> (Inr (), w'\<lparr>tokens := upsert_row payload (tokens w)\<rparr>))"

section \<open>Session tokens (jsonwebtoken)\<close>

text \<open>
  A signed token as jsonwebtoken sees it after decoding: the claims, and the secret
  whose HMAC the signature is (\<open>signed_with\<close>). The wire format is the function
  \<open>jwt_decode\<close> of the library record: a string that is no token decodes to nothing.
\<close>

record jwt =
  j_userId :: "js_id option"
  j_iat :: "int option"
  j_exp :: "int option"
  j_aud :: "string option"
  j_iss :: "string option"
  signed_with :: string

record verify_options =
  audience :: "string option"
  issuer :: "string option"

datatype jwt_error = JwtMalformed | InvalidSignature | TokenExpired | AudienceInvalid | IssuerInvalid

text \<open>
  \<open>jwt.verify(token, secret, options)\<close>: the signature, then \<open>exp\<close> against the clock
  (expired when \<open>now >= exp\<close>), then the audience and the issuer when the options ask
  for them. A throw is \<open>Inl\<close>. The orchestrator signs its tokens with HS256 and sets no
  \<open>nbf\<close>, so the checks of the algorithm and of \<open>nbf\<close> are left out.
\<close>

definition jwt_verify ::
  "(string \<Rightarrow> jwt option) \<Rightarrow> int \<Rightarrow> string \<Rightarrow> string \<Rightarrow> verify_options \<Rightarrow> jwt_error + jwt" where
  "jwt_verify jwt_decode now token secret options =
     (case jwt_decode token of
        None \<Rightarrow> Inl JwtMalformed
      | Some t \<Rightarrow>
          if signed_with t \<noteq> secret then Inl InvalidSignature
          else if (case j_exp t of None \<Rightarrow> False | Some e \<Rightarrow> e \<le> now) then Inl TokenExpired
          else if (case audience options of None \<Rightarrow> False | Some a \<Rightarrow> j_aud t \<noteq> Some a)
            then Inl AudienceInvalid
          else if (case issuer options of None \<Rightarrow> False | Some i \<Rightarrow> j_iss t \<noteq> Some i)
            then Inl IssuerInvalid
          else Inr t)"

text \<open>
  \<open>jwt.sign(payload, secret, { audience, issuer, expiresIn })\<close>: \<open>exp\<close> is the payload's
  \<open>iat\<close> plus \<open>expiresIn\<close>.
\<close>

definition jwt_sign :: "js_id \<Rightarrow> int \<Rightarrow> string \<Rightarrow> string \<Rightarrow> string \<Rightarrow> int \<Rightarrow> jwt" where
  "jwt_sign uid iat secret aud iss expiresIn =
     \<lparr>j_userId = Some uid, j_iat = Some iat, j_exp = Some (iat + expiresIn),
      j_aud = Some aud, j_iss = Some iss, signed_with = secret\<rparr>"

section \<open>requireSession (the three tool servers)\<close>

text \<open>
  The request as the handlers read it (a header that is absent is \<open>None\<close>), the clock at
  its arrival, and the Express response: whether headers went out and the replies sent,
  each a status with the \<open>error\<close> field of its JSON body.
\<close>

record 'm request =
  authorization :: "string option"
  x_session :: "string option"
  query_sessionId :: "string option"
  body :: 'm
  arrival :: int

record response =
  headersSent :: bool
  replies :: "(nat \<times> string) list"

definition fresh_res :: response where
  "fresh_res = \<lparr>headersSent = False, replies = []\<rparr>"

definition send_json :: "nat \<Rightarrow> string \<Rightarrow> response \<Rightarrow> response" where
  "send_json code e res = res\<lparr>headersSent := True, replies := replies res @ [(code, e)]\<rparr>"

record Ctx =
  ctx_userId :: js_id

record session_config =
  jwt_decode :: "string \<Rightarrow> jwt option"
  SESSION_JWT_SECRET :: string
  SESSION_JWT_ISSUER :: string

text \<open>
  \<open>rawHeader = authorization || x-session || ""\<close>, then the text after a leading
  \<open>bearer \<close> of any letter case. Node hands both headers over as one string each, so
  \<open>raw\<close> is \<open>rawHeader\<close>.
\<close>

definition bearer_token :: "('m, 'x) request_scheme \<Rightarrow> string" where
  "bearer_token req =
     (let rawHeader =
            (if truthy_str (authorization req) then the (authorization req)
             else if truthy_str (x_session req) then the (x_session req)
             else []);
          raw = rawHeader
      in if startsWith (toLowerCase raw) ''bearer '' then drop 7 raw else raw)"

text \<open>The \<open>catch\<close> block: one 401 unless headers already went out, and \<open>null\<close>.\<close>

definition invalid_session :: "response \<Rightarrow> Ctx option \<times> response" where
  "invalid_session res =
     (if \<not> headersSent res then (None, send_json 401 ''invalid_session'' res) else (None, res))"

text \<open>The QuickBooks server that talks to the sandbox: no verify options, the id as it is.\<close>

definition requireSession_sandbox ::
  "session_config \<Rightarrow> ('m, 'x) request_scheme \<Rightarrow> response \<Rightarrow> Ctx option \<times> response" where
  "requireSession_sandbox cfg req res =
     (case jwt_verify (jwt_decode cfg) (arrival req) (bearer_token req) (SESSION_JWT_SECRET cfg)
             \<lparr>audience = None, issuer = None\<rparr> of
        Inl e \<Rightarrow> invalid_session res
      | Inr decoded \<Rightarrow>
          if \<not> truthy_id (j_userId decoded) then invalid_session res
          else (Some \<lparr>ctx_userId = the (j_userId decoded)\<rparr>, res))"

text \<open>The QuickBooks server with the configurable API base: no verify options, \<open>String(userId)\<close>.\<close>

definition requireSession_qb ::
  "session_config \<Rightarrow> ('m, 'x) request_scheme \<Rightarrow> response \<Rightarrow> Ctx option \<times> response" where
  "requireSession_qb cfg req res =
     (case jwt_verify (jwt_decode cfg) (arrival req) (bearer_token req) (SESSION_JWT_SECRET cfg)
             \<lparr>audience = None, issuer = None\<rparr> of
        Inl e \<Rightarrow> invalid_session res
      | Inr decoded \<Rightarrow>
          if \<not> truthy_id (j_userId decoded) then invalid_session res
          else (Some \<lparr>ctx_userId = IdStr (String_js (the (j_userId decoded)))\<rparr>, res))"

text \<open>The Housecall Pro server: audience \<open>housecallpro-mcp\<close> and the configured issuer.\<close>

definition requireSession_hcp ::
  "session_config \<Rightarrow> ('m, 'x) request_scheme \<Rightarrow> response \<Rightarrow> Ctx option \<times> response" where
  "requireSession_hcp cfg req res =
     (case jwt_verify (jwt_decode cfg) (arrival req) (bearer_token req) (SESSION_JWT_SECRET cfg)
             \<lparr>audience = Some ''housecallpro-mcp'', issuer = Some (SESSION_JWT_ISSUER cfg)\<rparr> of
        Inl e \<Rightarrow> invalid_session res
      | Inr decoded \<Rightarrow>
          if \<not> truthy_id (j_userId decoded) then invalid_session res
          else (Some \<lparr>ctx_userId = IdStr (String_js (the (j_userId decoded)))\<rparr>, res))"

datatype server = QuickBooksSandbox | QuickBooks | HousecallPro

fun requireSession ::
  "server \<Rightarrow> session_config \<Rightarrow> ('m, 'x) request_scheme \<Rightarrow> response \<Rightarrow> Ctx option \<times> response" where
  "requireSession QuickBooksSandbox = requireSession_sandbox"
| "requireSession QuickBooks = requireSession_qb"
| "requireSession HousecallPro = requireSession_hcp"

section \<open>OAuth Refresh Client and Scoped External-API Client (QuickBooks servers)\<close>

record http_response =
  status :: nat
  body_text :: string

definition ok :: "('x) http_response_scheme \<Rightarrow> bool" where
  "ok resp = (200 \<le> status resp \<and> status resp \<le> 299)"

text \<open>
  The token endpoint's JSON at the type the source casts it to:
  \<open>{ access_token: string; refresh_token?: string; expires_in?: number }\<close>.
\<close>

record token_json =
  tj_access_token :: string
  tj_refresh_token :: "string option"
  tj_expires_in :: "int option"

record token_response = http_response +
  json_body :: token_json

text \<open>
  What lies outside the process: Intuit's token endpoint (by the refresh token posted),
  the QuickBooks API (by the number of the request and the request), \<open>JSON.parse\<close>, the
  clock in seconds, and the configuration. A \<open>fetch\<close> that rejects is \<open>None\<close>.
\<close>

record env =
  token_endpoint :: "string \<Rightarrow> token_response option"
  qbo_api :: "nat \<Rightarrow> http_request \<Rightarrow> http_response option"
  JSON_parse :: "string \<Rightarrow> json option"
  now_seconds :: int
  QB_API_BASE :: string
  MINOR_VERSION :: string

fun is_fetch :: "event \<Rightarrow> bool" where
  "is_fetch (ApiFetch r) = True"
| "is_fetch e = False"

fun is_refresh :: "event \<Rightarrow> bool" where
  "is_refresh (TokenEndpoint r) = True"
| "is_refresh e = False"

fun is_select :: "event \<Rightarrow> bool" where
  "is_select (DbSelect u p) = True"
| "is_select e = False"

fun is_upsert :: "event \<Rightarrow> bool" where
  "is_upsert (DbUpsert r) = True"
| "is_upsert e = False"

definition fetches :: "world \<Rightarrow> nat" where
  "fetches w = length (filter is_fetch (trace w))"

definition refreshes :: "world \<Rightarrow> nat" where
  "refreshes w = length (filter is_refresh (trace w))"

definition selects :: "world \<Rightarrow> nat" where
  "selects w = length (filter is_select (trace w))"

definition upserts :: "world \<Rightarrow> nat" where
  "upserts w = length (filter is_upsert (trace w))"

definition form_value :: "string option \<Rightarrow> string" where
  "form_value refresh_tok = (case refresh_tok of None \<Rightarrow> ''null'' | Some r \<Rightarrow> r)"

text \<open>
  \<open>refreshWithQbo(refresh_token, userId, realmId)\<close>, the same in both QuickBooks servers.
  The form field of a \<open>null\<close> refresh token is the text \<open>null\<close>.
\<close>

definition refreshWithQbo ::
  "env \<Rightarrow> string option \<Rightarrow> js_id \<Rightarrow> string option \<Rightarrow> world \<Rightarrow> (err + unit) \<times> world" where
  "refreshWithQbo ev refresh_tok uid realm w =
     (let posted = form_value refresh_tok;
          w1 = w\<lparr>trace := trace w @ [TokenEndpoint posted]\<rparr>
      in case token_endpoint ev posted of
           None \<Rightarrow> (Inl NetworkError, w1)
         | Some resp \<Rightarrow>
             if \<not> ok resp then (Inl (RefreshFailed (status resp) (body_text resp)), w1)
             else
               (let d = json_body resp;
                    now = now_seconds ev;
                    expires = (if truthy_num (tj_expires_in d)
                               then Some (now + the (tj_expires_in d)) else None)
                in upsertTokens
                     \<lparr>i_userId = uid, i_provider = ''quickbooks'',
                      i_access_token = tj_access_token d,
                      i_refresh_token =
                        (case tj_refresh_token d of None \<Rightarrow> refresh_tok | Some r \<Rightarrow> Some r),
                      i_realmId = realm, i_expires_at = expires\<rparr> w1))"

text \<open>
  The authorization failures each server recognises: the sandbox server a 401, the other
  a 401 or a 400 whose body contains \<open>3100\<close>.
\<close>

definition isAuthError_sandbox :: "http_response \<Rightarrow> bool" where
  "isAuthError_sandbox resp = (status resp = 401)"

definition isAuthError :: "http_response \<Rightarrow> bool" where
  "isAuthError resp =
     (status resp = 401 \<or> (status resp = 400 \<and> str_includes (body_text resp) ''3100''))"

record opts =
  opt_method :: "string option"
  opt_body :: "json option"

definition needRefresh_obj :: "string \<Rightarrow> json" where
  "needRefresh_obj t = JObj [(''needRefresh'', JBool True), (''text'', JStr t)]"

text \<open>\<open>result?.needRefresh\<close>, read for its truthiness.\<close>

definition needRefresh :: "json \<Rightarrow> bool" where
  "needRefresh result = truthy (get_prop result ''needRefresh'')"

text \<open>The request \<open>doFetch\<close> sends: \<open>Authorization: Bearer accessToken\<close>, the body if there is one.\<close>

definition fetch_request :: "string \<Rightarrow> opts \<Rightarrow> string \<Rightarrow> http_request" where
  "fetch_request u os accessToken =
     \<lparr>url = u,
      verb = (case opt_method os of None \<Rightarrow> ''GET'' | Some m \<Rightarrow> m),
      bearer = accessToken,
      content = (if truthy (opt_body os) then opt_body os else None)\<rparr>"

text \<open>
  The closure \<open>doFetch(accessToken)\<close>; \<open>row\<close> is the credential read at the start of the
  call and \<open>auth\<close> the server's test for an authorization failure.
\<close>

definition doFetch ::
  "(http_response \<Rightarrow> bool) \<Rightarrow> env \<Rightarrow> Tokens \<Rightarrow> string \<Rightarrow> opts \<Rightarrow> string \<Rightarrow> world
     \<Rightarrow> (err + json) \<times> world" where
  "doFetch auth ev row u os accessToken w =
     (let rq = fetch_request u os accessToken;
          w1 = w\<lparr>trace := trace w @ [ApiFetch rq]\<rparr>
      in case qbo_api ev (fetches w) rq of
           None \<Rightarrow> (Inl NetworkError, w1)
         | Some resp \<Rightarrow>
             if \<not> ok resp then
               (if auth resp \<and> truthy_str (t_refresh_token row)
                then (Inr (needRefresh_obj (body_text resp)), w1)
                else (Inl (QboError (status resp) (body_text resp)), w1))
             else
               (case JSON_parse ev (if body_text resp = [] then ''{}'' else body_text resp) of
                  None \<Rightarrow> (Inl JsonSyntaxError, w1)
                | Some j \<Rightarrow> (Inr j, w1)))"

definition build_url :: "string \<Rightarrow> string \<Rightarrow> string \<Rightarrow> string \<Rightarrow> string" where
  "build_url api_base realm endpoint minor =
     (let base = api_base @ ''/v3/company/'' @ realm @ ''/'' @ endpoint
      in base @ (if CHR ''?'' \<in> set base then ''&minorversion='' @ minor
                 else ''?minorversion='' @ minor))"

text \<open>
  The second half of \<open>qbRequest\<close>: what follows a first result that asks for a refresh.
\<close>

definition refresh_and_retry ::
  "(http_response \<Rightarrow> bool) \<Rightarrow> env \<Rightarrow> Ctx \<Rightarrow> Tokens \<Rightarrow> string \<Rightarrow> opts \<Rightarrow> world
     \<Rightarrow> (err + json) \<times> world" where
  "refresh_and_retry auth ev ctx row u os w =
     (case refreshWithQbo ev (t_refresh_token row) (ctx_userId ctx) (realmId row) w of
        (Inl e, w1) \<Rightarrow> (Inl e, w1)
      | (Inr x, w1) \<Rightarrow>
          (case getTokens (ctx_userId ctx) ''quickbooks'' w1 of
             (Inl e, w2) \<Rightarrow> (Inl e, w2)
           | (Inr latest, w2) \<Rightarrow>
               (case latest of
                  None \<Rightarrow> (Inl NoAccessTokenAfterRefresh, w2)
                | Some l \<Rightarrow>
                    if t_access_token l = [] then (Inl NoAccessTokenAfterRefresh, w2)
                    else
                      (case doFetch auth ev row u os (t_access_token l) w2 of
                         (Inl e, w3) \<Rightarrow> (Inl e, w3)
                       | (Inr result, w3) \<Rightarrow>
                           if needRefresh result then (Inl UnauthorizedAfterRefresh, w3)
                           else (Inr result, w3)))))"

text \<open>
  \<open>qbRequest(endpoint, opts)\<close> under the ambient context \<open>ctxStore.getStore()\<close>, with the
  server's API base and its test for an authorization failure.
\<close>

definition qbRequest_with ::
  "(http_response \<Rightarrow> bool) \<Rightarrow> string \<Rightarrow> env \<Rightarrow> Ctx option \<Rightarrow> string \<Rightarrow> opts \<Rightarrow> world
     \<Rightarrow> (err + json) \<times> world" where
  "qbRequest_with auth api_base ev store endpoint os w =
     (case store of
        None \<Rightarrow> (Inl MissingContext, w)
      | Some ctx \<Rightarrow>
          (case getTokens (ctx_userId ctx) ''quickbooks'' w of
             (Inl e, w1) \<Rightarrow> (Inl e, w1)
           | (Inr None, w1) \<Rightarrow> (Inl NotConnected, w1)
           | (Inr (Some row), w1) \<Rightarrow>
               if t_access_token row = [] \<or> \<not> truthy_str (realmId row) then (Inl NotConnected, w1)
               else
                 (let u = build_url api_base (the (realmId row)) endpoint (MINOR_VERSION ev)
                  in case doFetch auth ev row u os (t_access_token row) w1 of
                       (Inl e, w2) \<Rightarrow> (Inl e, w2)
                     | (Inr result, w2) \<Rightarrow>
                         if needRefresh result then refresh_and_retry auth ev ctx row u os w2
                         else (Inr result, w2))))"

definition qbRequest_sandbox ::
  "env \<Rightarrow> Ctx option \<Rightarrow> string \<Rightarrow> opts \<Rightarrow> world \<Rightarrow> (err + json) \<times> world" where
  "qbRequest_sandbox =
     qbRequest_with isAuthError_sandbox ''https://sandbox-quickbooks.api.intuit.com''"

definition qbRequest ::
  "env \<Rightarrow> Ctx option \<Rightarrow> string \<Rightarrow> opts \<Rightarrow> world \<Rightarrow> (err + json) \<times> world" where
  "qbRequest ev = qbRequest_with isAuthError (QB_API_BASE ev) ev"

section \<open>The event stream and the message post (createApp, the same in the three servers)\<close>

text \<open>
  \<open>activeTransports\<close> maps a session id to its transport, here the number of the stream
  the transport writes to. \<open>observed\<close> records under which context
  (\<open>ctxStore.run(sess, ...)\<close>) the SDK was entered: at \<open>server.connect\<close> when a stream
  opens, and at \<open>transport.handlePostMessage\<close> for each message. \<open>outside\<close> is the world
  the tools act on.
\<close>

datatype 'm obs = Connected string Ctx | Handled string Ctx 'm

record 'm app =
  activeTransports :: "string \<rightharpoonup> nat"
  observed :: "'m obs list"
  outside :: world

text \<open>
  \<open>transport.sessionId || "default"\<close> when a stream opens, and
  \<open>req.query.sessionId || "default"\<close> when a message is posted.
\<close>

definition stream_sessionId :: "string \<Rightarrow> string" where
  "stream_sessionId transport_sessionId =
     (if transport_sessionId \<noteq> [] then transport_sessionId else ''default'')"

definition post_sessionId :: "('m, 'x) request_scheme \<Rightarrow> string" where
  "post_sessionId req =
     (if truthy_str (query_sessionId req) then the (query_sessionId req) else ''default'')"

text \<open>
  \<open>server.connect(transport)\<close> returns, or throws with the headers sent or not.
\<close>

datatype connect_outcome = ConnectOk | ConnectThrows bool

definition sse ::
  "server \<Rightarrow> session_config \<Rightarrow> 'm request \<Rightarrow> string \<Rightarrow> nat \<Rightarrow> connect_outcome \<Rightarrow> 'm app
     \<Rightarrow> 'm app \<times> response" where
  "sse srv cfg req transport_sessionId stream outcome a =
     (case requireSession srv cfg req fresh_res of
        (None, res) \<Rightarrow> (a, res)
      | (Some sess, res) \<Rightarrow>
          (let sessionId = stream_sessionId transport_sessionId;
               a1 = a\<lparr>activeTransports := (activeTransports a)(sessionId \<mapsto> stream)\<rparr>;
               a2 = a1\<lparr>observed := observed a1 @ [Connected sessionId sess]\<rparr>
           in case outcome of
                ConnectOk \<Rightarrow> (a2, res\<lparr>headersSent := True\<rparr>)
              | ConnectThrows sent \<Rightarrow>
                  if \<not> sent then (a2, send_json 500 ''sse_failed'' res)
                  else (a2, res\<lparr>headersSent := True\<rparr>)))"

text \<open>
  \<open>handlePostMessage\<close> stands for \<open>transport.handlePostMessage(req, res, req.body)\<close>: the
  SDK and the tools it dispatches to, run with the ambient context it is given; the SDK
  answers the request itself.
\<close>

definition messages ::
  "server \<Rightarrow> session_config \<Rightarrow> (Ctx option \<Rightarrow> nat \<Rightarrow> 'm \<Rightarrow> world \<Rightarrow> world) \<Rightarrow> 'm request \<Rightarrow> 'm app
     \<Rightarrow> 'm app \<times> response" where
  "messages srv cfg handlePostMessage req a =
     (case requireSession srv cfg req fresh_res of
        (None, res) \<Rightarrow> (a, res)
      | (Some sess, res) \<Rightarrow>
          (let sessionId = post_sessionId req
           in case activeTransports a sessionId of
                None \<Rightarrow> (a, send_json 400 ''no_active_transport'' res)
              | Some transport \<Rightarrow>
                  (a\<lparr>observed := observed a @ [Handled sessionId sess (body req)],
                     outside := handlePostMessage (Some sess) transport (body req) (outside a)\<rparr>,
                   res\<lparr>headersSent := True\<rparr>)))"

text \<open>The \<open>close\<close> listener of a stream registered under \<open>sessionId\<close>.\<close>

definition on_close :: "string \<Rightarrow> 'm app \<Rightarrow> 'm app" where
  "on_close sessionId a = a\<lparr>activeTransports := (activeTransports a)(sessionId := None)\<rparr>"

datatype 'm http =
    GetSse "'m request" string nat connect_outcome
  | PostMessages "'m request"
  | Close string

fun step ::
  "server \<Rightarrow> session_config \<Rightarrow> (Ctx option \<Rightarrow> nat \<Rightarrow> 'm \<Rightarrow> world \<Rightarrow> world) \<Rightarrow> 'm app \<Rightarrow> 'm http
     \<Rightarrow> 'm app" where
  "step srv cfg h a (GetSse req tsid stream outcome) = fst (sse srv cfg req tsid stream outcome a)"
| "step srv cfg h a (PostMessages req) = fst (messages srv cfg h req a)"
| "step srv cfg h a (Close sessionId) = on_close sessionId a"

definition run ::
  "server \<Rightarrow> session_config \<Rightarrow> (Ctx option \<Rightarrow> nat \<Rightarrow> 'm \<Rightarrow> world \<Rightarrow> world) \<Rightarrow> 'm app \<Rightarrow> 'm http list
     \<Rightarrow> 'm app" where
  "run srv cfg h a evs = foldl (step srv cfg h) a evs"

text \<open>Whether a request opens a stream under a session id.\<close>

fun opens :: "string \<Rightarrow> 'm http \<Rightarrow> bool" where
  "opens sid (GetSse req tsid stream outcome) = (stream_sessionId tsid = sid)"
| "opens sid e = False"

section \<open>The orchestrator's /chat endpoint (backend/index.ts)\<close>

record backend_config =
  b_SESSION_JWT_SECRET :: string
  b_SESSION_JWT_AUDIENCE :: string
  b_SESSION_JWT_ISSUER :: string
  b_SESSION_TTL_SECONDS :: int

definition isQboConnected :: "js_id \<Rightarrow> int \<Rightarrow> world \<Rightarrow> (err + bool) \<times> world" where
  "isQboConnected uid now w =
     (case getTokens uid ''quickbooks'' w of
        (Inl e, w1) \<Rightarrow> (Inl e, w1)
      | (Inr None, w1) \<Rightarrow> (Inr False, w1)
      | (Inr (Some row), w1) \<Rightarrow>
          if t_access_token row = [] then (Inr False, w1)
          else if truthy_num (t_expires_at row) \<and> the (t_expires_at row) \<le> now then (Inr False, w1)
          else (Inr True, w1))"

text \<open>
  The handler up to the call of the model API: a reply of its own, or the request
  forwarded with the session token it minted as \<open>authorization_token\<close>.
\<close>

datatype chat_outcome = ChatReply nat string | Forwarded jwt

definition chat :: "backend_config \<Rightarrow> int \<Rightarrow> json option \<Rightarrow> world \<Rightarrow> chat_outcome \<times> world" where
  "chat cfg now message w =
     (if \<not> truthy message \<or> (case message of Some (JStr s) \<Rightarrow> False | _ \<Rightarrow> True)
      then (ChatReply 400 ''message is required'', w)
      else
        (case isQboConnected (IdNum 1) now w of
           (Inl e, w1) \<Rightarrow> (ChatReply 500 ''internal_error'', w1)
         | (Inr connected, w1) \<Rightarrow>
             if \<not> connected then (ChatReply 400 ''QuickBooks not connected for userId=1'', w1)
             else
               (Forwarded
                  (jwt_sign (IdNum 1) now (b_SESSION_JWT_SECRET cfg) (b_SESSION_JWT_AUDIENCE cfg)
                     (b_SESSION_JWT_ISSUER cfg)
                     (if b_SESSION_TTL_SECONDS cfg = 0 then 3600 else b_SESSION_TTL_SECONDS cfg)),
                w1)))"

section \<open>The email tool server (/oauth/gmail/callback and /gmail/*)\<close>

text \<open>
  \<open>userTokens\<close> is the in-memory map, \<open>credentials\<close> what \<open>oauth2Client.setCredentials\<close>
  last stored, and \<open>calls\<close> every Gmail API call with the credentials it went out under.
  The API is a parameter: it answers a call with the message ids it lists (none for the
  other calls), or throws (\<open>None\<close>). A request carries \<open>caller\<close>, whatever identifies who
  sent it (headers, cookies, address), next to the fields the handlers read.
\<close>

datatype gmail_call =
    SendRaw "string list"
  | ListMessages "string option" "string option" "string option"
  | GetMessage string string
  | Modify string bool
  | ListLabels

record 'c gmail_service =
  userTokens :: "string \<rightharpoonup> 'c"
  credentials :: "'c option"
  calls :: "('c option \<times> gmail_call) list"

record 'h gmail_request =
  caller :: 'h
  g_code :: "string option"
  g_to :: "string option"
  g_subject :: "string option"
  g_body :: "string option"
  g_cc :: "string option"
  g_bcc :: "string option"
  g_q :: "string option"
  g_query :: "string option"
  g_maxResults :: "string option"
  g_pageToken :: "string option"
  g_messageId :: string
  g_action :: "string option"

datatype gmail_reply = Redirect string | Json nat string

definition call_api ::
  "('c option \<Rightarrow> gmail_call \<Rightarrow> string list option) \<Rightarrow> gmail_call \<Rightarrow> 'c gmail_service
     \<Rightarrow> string list option \<times> 'c gmail_service" where
  "call_api api c st = (api (credentials st) c, st\<lparr>calls := calls st @ [(credentials st, c)]\<rparr>)"

text \<open>\<open>getToken\<close> exchanges the code for the tokens, or throws (\<open>None\<close>).\<close>

definition gmail_callback ::
  "(string \<Rightarrow> 'c option) \<Rightarrow> 'h gmail_request \<Rightarrow> 'c gmail_service \<Rightarrow> gmail_reply \<times> 'c gmail_service" where
  "gmail_callback getToken req st =
     (let code = (if truthy_str (g_code req) then the (g_code req) else [])
      in if code = [] then (Redirect ''?gmail=error'', st)
         else
           (case getToken code of
              None \<Rightarrow> (Redirect ''?gmail=error'', st)
            | Some toks \<Rightarrow>
                (Redirect ''?gmail=connected'',
                 st\<lparr>userTokens := (userTokens st)(''user1'' \<mapsto> toks), credentials := Some toks\<rparr>)))"

definition gmail_send ::
  "('c option \<Rightarrow> gmail_call \<Rightarrow> string list option) \<Rightarrow> 'h gmail_request \<Rightarrow> 'c gmail_service
     \<Rightarrow> gmail_reply \<times> 'c gmail_service" where
  "gmail_send api req st =
     (if \<not> truthy_str (g_to req) \<or> \<not> truthy_str (g_subject req) \<or> \<not> truthy_str (g_body req)
      then (Json 400 ''to, subject, and body are required'', st)
      else
        (case userTokens st ''user1'' of
           None \<Rightarrow> (Json 401 ''Gmail not connected'', st)
         | Some toks \<Rightarrow>
             (let st1 = st\<lparr>credentials := Some toks\<rparr>;
                  emailLines =
                    [''To: '' @ the (g_to req)]
                    @ (if truthy_str (g_cc req) then [''Cc: '' @ the (g_cc req)] else [])
                    @ (if truthy_str (g_bcc req) then [''Bcc: '' @ the (g_bcc req)] else [])
                    @ [''Subject: '' @ the (g_subject req),
                       ''Content-Type: text/html; charset=utf-8'', [], the (g_body req)]
              in case call_api api (SendRaw emailLines) st1 of
                   (None, st2) \<Rightarrow> (Json 500 ''Failed to send email'', st2)
                 | (Some r, st2) \<Rightarrow> (Json 200 ''success'', st2))))"

text \<open>The detail reads of \<open>Promise.all(ids.map(...))\<close>: one \<open>get\<close> for each id; a throw ends it.\<close>

fun get_details ::
  "('c option \<Rightarrow> gmail_call \<Rightarrow> string list option) \<Rightarrow> string \<Rightarrow> string list \<Rightarrow> 'c gmail_service
     \<Rightarrow> bool \<times> 'c gmail_service" where
  "get_details api fmt [] st = (True, st)"
| "get_details api fmt (i # ids) st =
     (case call_api api (GetMessage i fmt) st of
        (None, st1) \<Rightarrow> (False, st1)
      | (Some r, st1) \<Rightarrow> get_details api fmt ids st1)"

definition gmail_messages ::
  "('c option \<Rightarrow> gmail_call \<Rightarrow> string list option) \<Rightarrow> 'h gmail_request \<Rightarrow> 'c gmail_service
     \<Rightarrow> gmail_reply \<times> 'c gmail_service" where
  "gmail_messages api req st =
     (case userTokens st ''user1'' of
        None \<Rightarrow> (Json 401 ''Gmail not connected'', st)
      | Some toks \<Rightarrow>
          (let st1 = st\<lparr>credentials := Some toks\<rparr>;
               maxResults = (case g_maxResults req of None \<Rightarrow> Some ''20'' | Some m \<Rightarrow> Some m)
           in case call_api api (ListMessages (g_q req) maxResults (g_pageToken req)) st1 of
                (None, st2) \<Rightarrow> (Json 500 ''Failed to get messages'', st2)
              | (Some ids, st2) \<Rightarrow>
                  if ids = [] then (Json 200 ''messages'', st2)
                  else
                    (case get_details api ''full'' (take 10 ids) st2 of
                       (False, st3) \<Rightarrow> (Json 500 ''Failed to get messages'', st3)
                     | (True, st3) \<Rightarrow> (Json 200 ''messages'', st3))))"

definition gmail_search ::
  "('c option \<Rightarrow> gmail_call \<Rightarrow> string list option) \<Rightarrow> 'h gmail_request \<Rightarrow> 'c gmail_service
     \<Rightarrow> gmail_reply \<times> 'c gmail_service" where
  "gmail_search api req st =
     (if \<not> truthy_str (g_query req) then (Json 400 ''Search query is required'', st)
      else
        (case userTokens st ''user1'' of
           None \<Rightarrow> (Json 401 ''Gmail not connected'', st)
         | Some toks \<Rightarrow>
             (let st1 = st\<lparr>credentials := Some toks\<rparr>;
                  maxResults = (case g_maxResults req of None \<Rightarrow> Some ''10'' | Some m \<Rightarrow> Some m)
              in case call_api api (ListMessages (g_query req) maxResults None) st1 of
                   (None, st2) \<Rightarrow> (Json 500 ''Failed to search emails'', st2)
                 | (Some ids, st2) \<Rightarrow>
                     if ids = [] then (Json 200 ''messages'', st2)
                     else
                       (case get_details api ''metadata'' ids st2 of
                          (False, st3) \<Rightarrow> (Json 500 ''Failed to search emails'', st3)
                        | (True, st3) \<Rightarrow> (Json 200 ''messages'', st3)))))"

definition gmail_mark ::
  "('c option \<Rightarrow> gmail_call \<Rightarrow> string list option) \<Rightarrow> 'h gmail_request \<Rightarrow> 'c gmail_service
     \<Rightarrow> gmail_reply \<times> 'c gmail_service" where
  "gmail_mark api req st =
     (case userTokens st ''user1'' of
        None \<Rightarrow> (Json 401 ''Gmail not connected'', st)
      | Some toks \<Rightarrow>
          (let st1 = st\<lparr>credentials := Some toks\<rparr>
           in if g_action req = Some ''read'' then
                (case call_api api (Modify (g_messageId req) True) st1 of
                   (None, st2) \<Rightarrow> (Json 500 ''Failed to mark message'', st2)
                 | (Some r, st2) \<Rightarrow> (Json 200 ''success'', st2))
              else if g_action req = Some ''unread'' then
                (case call_api api (Modify (g_messageId req) False) st1 of
                   (None, st2) \<Rightarrow> (Json 500 ''Failed to mark message'', st2)
                 | (Some r, st2) \<Rightarrow> (Json 200 ''success'', st2))
              else (Json 200 ''success'', st1)))"

definition gmail_labels ::
  "('c option \<Rightarrow> gmail_call \<Rightarrow> string list option) \<Rightarrow> 'h gmail_request \<Rightarrow> 'c gmail_service
     \<Rightarrow> gmail_reply \<times> 'c gmail_service" where
  "gmail_labels api req st =
     (case userTokens st ''user1'' of
        None \<Rightarrow> (Json 401 ''Gmail not connected'', st)
      | Some toks \<Rightarrow>
          (let st1 = st\<lparr>credentials := Some toks\<rparr>
           in case call_api api ListLabels st1 of
                (None, st2) \<Rightarrow> (Json 500 ''Failed to get labels'', st2)
              | (Some r, st2) \<Rightarrow> (Json 200 ''labels'', st2)))"

datatype endpoint = GmailSend | GmailMessages | GmailSearch | GmailMark | GmailLabels

fun gmail ::
  "endpoint \<Rightarrow> ('c option \<Rightarrow> gmail_call \<Rightarrow> string list option) \<Rightarrow> 'h gmail_request \<Rightarrow> 'c gmail_service
     \<Rightarrow> gmail_reply \<times> 'c gmail_service" where
  "gmail GmailSend = gmail_send"
| "gmail GmailMessages = gmail_messages"
| "gmail GmailSearch = gmail_search"
| "gmail GmailMark = gmail_mark"
| "gmail GmailLabels = gmail_labels"

section \<open>Auxiliary definitions and scenarios\<close>

text \<open>The row a successful refresh writes for a user, from the provider's reply.\<close>

definition refreshed_row :: "env \<Rightarrow> token_response \<Rightarrow> string option \<Rightarrow> js_id \<Rightarrow> string option \<Rightarrow> TokenRow" where
  "refreshed_row ev resp rt uid realm =
     \<lparr>user_id = String_js uid, provider = ''quickbooks'',
      access_token = tj_access_token (json_body resp),
      refresh_token = (case tj_refresh_token (json_body resp) of None \<Rightarrow> rt | Some r \<Rightarrow> Some r),
      realm_id = realm,
      expires_at = (case tj_expires_in (json_body resp) of
                      None \<Rightarrow> None
                    | Some n \<Rightarrow> if n = 0 then None else Some (now_seconds ev + n))\<rparr>"


text \<open>
  Tenant \<open>u1\<close> with a stored QuickBooks credential whose access token is stale, a token
  endpoint that accepts the stored refresh token, and an API that gives the two
  responses handed in to the first and the second request and no third.
\<close>

definition u1_row :: TokenRow where
  "u1_row = \<lparr>user_id = ''u1'', provider = ''quickbooks'', access_token = ''stale'',
             refresh_token = Some ''refresh-1'', realm_id = Some ''realm-9'',
             expires_at = Some 0\<rparr>"

definition u1_world :: world where
  "u1_world = \<lparr>tokens = [u1_row], db_fault = None, trace = []\<rparr>"

definition u1_ctx :: Ctx where
  "u1_ctx = \<lparr>ctx_userId = IdStr ''u1''\<rparr>"

definition no_opts :: opts where
  "no_opts = \<lparr>opt_method = None, opt_body = None\<rparr>"

definition grant :: "int option \<Rightarrow> token_response" where
  "grant expires_in =
     \<lparr>status = 200, body_text = [],
      json_body = \<lparr>tj_access_token = ''fresh'', tj_refresh_token = None,
                   tj_expires_in = expires_in\<rparr>\<rparr>"

definition scenario_env :: "token_response \<Rightarrow> http_response \<Rightarrow> http_response \<Rightarrow> env" where
  "scenario_env g first second =
     \<lparr>token_endpoint = (\<lambda>rt. if rt = ''refresh-1'' then Some g else None),
      qbo_api = (\<lambda>n rq. if n = 0 then Some first else if n = 1 then Some second else None),
      JSON_parse = (\<lambda>t. if t = ''{}'' then Some (JObj []) else None),
      now_seconds = 1000,
      QB_API_BASE = ''https://quickbooks.api.intuit.com'',
      MINOR_VERSION = ''75''\<rparr>"

text \<open>
  Session fixtures: a verifier that knows the listed token strings, a request with
  \<open>Authorization: Bearer tok\<close> whose body names the endpoint a tool is to call, an app
  with no stream open, and tools that call \<open>qbRequest\<close> under the ambient context.
\<close>

definition session_cfg :: "(string \<times> jwt) list \<Rightarrow> session_config" where
  "session_cfg toks =
     \<lparr>jwt_decode = map_of toks, SESSION_JWT_SECRET = ''secret'', SESSION_JWT_ISSUER = ''backend''\<rparr>"

definition bearer_request :: "string \<Rightarrow> string option \<Rightarrow> int \<Rightarrow> string request" where
  "bearer_request tok sid t =
     \<lparr>authorization = Some (''Bearer '' @ tok), x_session = None, query_sessionId = sid,
      body = ''customer/1'', arrival = t\<rparr>"

definition empty_app :: "string app" where
  "empty_app = \<lparr>activeTransports = Map.empty, observed = [], outside = u1_world\<rparr>"

definition qb_tools :: "env \<Rightarrow> Ctx option \<Rightarrow> nat \<Rightarrow> string \<Rightarrow> world \<Rightarrow> world" where
  "qb_tools ev store transport endpoint w = snd (qbRequest ev store endpoint no_opts w)"

text \<open>
  Two tenants with a valid token each; an environment whose API answers 200; and three
  requests: \<open>u1\<close> opens stream \<open>s1\<close>, \<open>u2\<close> opens stream \<open>s2\<close>, and a message is posted
  to \<open>s1\<close> with the token of \<open>u2\<close>.
\<close>

definition two_tenants :: session_config where
  "two_tenants =
     session_cfg [(''tokA'', jwt_sign (IdStr ''u1'') 0 ''secret'' ''mcp'' ''backend'' 3600),
                  (''tokB'', jwt_sign (IdStr ''u2'') 0 ''secret'' ''mcp'' ''backend'' 3600)]"

definition quiet_env :: env where
  "quiet_env =
     scenario_env (grant None) \<lparr>status = 200, body_text = []\<rparr> \<lparr>status = 200, body_text = []\<rparr>"

definition cross_post :: "string http list" where
  "cross_post =
     [GetSse (bearer_request ''tokA'' None 10) ''s1'' 0 ConnectOk,
      GetSse (bearer_request ''tokB'' None 11) ''s2'' 1 ConnectOk,
      PostMessages (bearer_request ''tokB'' (Some ''s1'') 12)]"

text \<open>
  The orchestrator's configuration, a store in which user 1 is connected, and a verifier
  that knows the tokens two \<open>/chat\<close> requests mint at times 100 and 200.
\<close>

definition backend_cfg :: backend_config where
  "backend_cfg =
     \<lparr>b_SESSION_JWT_SECRET = ''secret'', b_SESSION_JWT_AUDIENCE = ''mcp'',
      b_SESSION_JWT_ISSUER = ''backend'', b_SESSION_TTL_SECONDS = 3600\<rparr>"

definition tenant1_world :: world where
  "tenant1_world =
     \<lparr>tokens = [\<lparr>user_id = ''1'', provider = ''quickbooks'', access_token = ''at-1'',
                  refresh_token = Some ''refresh-1'', realm_id = Some ''realm-9'',
                  expires_at = None\<rparr>],
      db_fault = None, trace = []\<rparr>"

definition chat_tokens :: session_config where
  "chat_tokens =
     session_cfg [(''tok1'', jwt_sign (IdNum 1) 100 ''secret'' ''mcp'' ''backend'' 3600),
                  (''tok2'', jwt_sign (IdNum 1) 200 ''secret'' ''mcp'' ''backend'' 3600)]"

text \<open>
  A mail request of a given caller, a Gmail API that answers every call, a service in
  which one set of tokens is stored, and \<open>under\<close>: a later state of the service keeps the
  stored tokens and adds only calls made under the given credentials.
\<close>

definition mail_request :: "string \<Rightarrow> string gmail_request" where
  "mail_request who =
     \<lparr>caller = who, g_code = Some ''auth-code'', g_to = Some ''bob@example.com'',
      g_subject = Some ''Hi'', g_body = Some ''Hello'', g_cc = None, g_bcc = None,
      g_q = None, g_query = Some ''is:unread'', g_maxResults = None, g_pageToken = None,
      g_messageId = ''m1'', g_action = Some ''read''\<rparr>"

definition mail_api :: "string option \<Rightarrow> gmail_call \<Rightarrow> string list option" where
  "mail_api cr c = Some []"

definition mail_getToken :: "string \<Rightarrow> string option" where
  "mail_getToken code = Some ''gmail-tokens''"

definition disconnected_mail :: "string gmail_service" where
  "disconnected_mail = \<lparr>userTokens = Map.empty, credentials = None, calls = []\<rparr>"

definition connected_mail :: "string gmail_service" where
  "connected_mail = \<lparr>userTokens = [''user1'' \<mapsto> ''gmail-tokens''], credentials = None, calls = []\<rparr>"

definition under :: "'c option \<Rightarrow> 'c gmail_service \<Rightarrow> 'c gmail_service \<Rightarrow> bool" where
  "under cr st st' \<longleftrightarrow>
     userTokens st' = userTokens st \<and>
     (\<exists>cs. calls st' = calls st @ cs \<and> (\<forall>x\<in>set cs. fst x = cr))"

section \<open>Token Store: properties\<close>

lemma Number_toString_1: "Number_toString 1 = ''1''"
  by (simp add: Number_toString_def digit_char_def)

lemmas fixture_defs = u1_row_def u1_world_def u1_ctx_def no_opts_def grant_def scenario_env_def

lemma upsert_row_keys:
  "row_key ` set (upsert_row p rs) = insert (row_key p) (row_key ` set rs)"
  by (induction rs) auto

lemma upsert_row_distinct:
  "distinct (map row_key rs) \<Longrightarrow> distinct (map row_key (upsert_row p rs))"
proof (induction rs)
  case Nil
  then show ?case by simp
next
  case (Cons r rs)
  then show ?case by (auto simp: upsert_row_keys)
qed

lemma filter_absent:
  "k \<notin> set (map row_key rs) \<Longrightarrow> filter (\<lambda>r. row_key r = k) rs = []"
  by (induction rs) auto

lemma upsert_row_filter:
  "distinct (map row_key rs) \<Longrightarrow>
   filter (\<lambda>r. row_key r = row_key p) (upsert_row p rs) = [p]"
  by (induction rs) (auto simp: filter_absent)

lemma upsert_row_other:
  "k \<noteq> row_key p \<Longrightarrow>
   filter (\<lambda>r. row_key r = k) (upsert_row p rs) = filter (\<lambda>r. row_key r = k) rs"
  by (induction rs) auto

lemma upsert_row_twice:
  "row_key p = row_key q \<Longrightarrow> upsert_row q (upsert_row p rs) = upsert_row q rs"
  by (induction rs) auto

lemma upsert_row_length:
  "row_key p = row_key q \<Longrightarrow> length (upsert_row q (upsert_row p rs)) = length (upsert_row p rs)"
  by (induction rs) auto

lemma key_is_row_key: "key_is u p = (\<lambda>r. row_key r = (u, p))"
  by (auto simp: key_is_def row_key_def fun_eq_iff)

lemma select_after_upsert:
  "distinct (map row_key rs) \<Longrightarrow> user_id p = u \<Longrightarrow> provider p = pr \<Longrightarrow>
   filter (key_is u pr) (upsert_row p rs) = [p]"
  using upsert_row_filter [of rs p] by (simp add: key_is_row_key row_key_def)

text \<open>
  C8. For every (tenant, provider) key: two upserts with that key, whatever their access
  tokens, leave exactly one stored row for the key, and it is the second write; reading
  the key returns the second write; repeating the second write changes nothing; the
  second write adds no row.
\<close>

theorem upsert_last_write_wins:
  assumes "db_fault w = None" and "distinct (map row_key (tokens w))"
    and "String_js (i_userId r2) = String_js (i_userId r1)" and "i_provider r2 = i_provider r1"
  shows "filter (key_is (String_js (i_userId r1)) (i_provider r1))
           (tokens (snd (upsertTokens r2 (snd (upsertTokens r1 w))))) = [payload_of r2]
       \<and> fst (getTokens (i_userId r1) (i_provider r1) (snd (upsertTokens r2 (snd (upsertTokens r1 w)))))
           = Inr (normalize_row (Some (payload_of r2)))
       \<and> tokens (snd (upsertTokens r2 (snd (upsertTokens r2 (snd (upsertTokens r1 w))))))
           = tokens (snd (upsertTokens r2 (snd (upsertTokens r1 w))))
       \<and> length (tokens (snd (upsertTokens r2 (snd (upsertTokens r1 w)))))
           = length (tokens (snd (upsertTokens r1 w)))"
proof -
  let ?p1 = "payload_of r1" and ?p2 = "payload_of r2"
  have k: "row_key ?p1 = row_key ?p2"
    using assms(3,4) by (simp add: row_key_def payload_of_def)
  have t1: "tokens (snd (upsertTokens r1 w)) = upsert_row ?p1 (tokens w)"
    and f1: "db_fault (snd (upsertTokens r1 w)) = None"
    using assms(1) by (simp_all add: upsertTokens_def Let_def)
  have t2: "tokens (snd (upsertTokens r2 (snd (upsertTokens r1 w)))) = upsert_row ?p2 (tokens w)"
    and f2: "db_fault (snd (upsertTokens r2 (snd (upsertTokens r1 w)))) = None"
    using f1 t1 k by (simp_all add: upsertTokens_def Let_def upsert_row_twice)
  have sel: "filter (key_is (String_js (i_userId r1)) (i_provider r1)) (upsert_row ?p2 (tokens w)) = [?p2]"
    using assms(2,3,4) by (intro select_after_upsert) (simp_all add: payload_of_def)
  have a: "filter (key_is (String_js (i_userId r1)) (i_provider r1))
           (tokens (snd (upsertTokens r2 (snd (upsertTokens r1 w))))) = [?p2]"
    using sel t2 by simp
  have b: "fst (getTokens (i_userId r1) (i_provider r1) (snd (upsertTokens r2 (snd (upsertTokens r1 w)))))
           = Inr (normalize_row (Some ?p2))"
    using a f2 by (simp add: getTokens_def select_single_def Let_def)
  have c: "tokens (snd (upsertTokens r2 (snd (upsertTokens r2 (snd (upsertTokens r1 w))))))
           = tokens (snd (upsertTokens r2 (snd (upsertTokens r1 w))))"
    using f2 t2 by (simp add: upsertTokens_def Let_def upsert_row_twice)
  have d: "length (tokens (snd (upsertTokens r2 (snd (upsertTokens r1 w)))))
           = length (tokens (snd (upsertTokens r1 w)))"
    using f1 t1 k by (simp add: upsertTokens_def Let_def upsert_row_length)
  from a b c d show ?thesis by blast
qed

theorem upsert_last_write_wins_witness:
  "db_fault \<lparr>tokens = [\<lparr>user_id = ''2'', provider = ''quickbooks'', access_token = ''z'',
                           refresh_token = None, realm_id = None, expires_at = None\<rparr>],
              db_fault = None, trace = []\<rparr> = None
   \<and> distinct (map row_key (tokens \<lparr>tokens = [\<lparr>user_id = ''2'', provider = ''quickbooks'', access_token = ''z'',
                           refresh_token = None, realm_id = None, expires_at = None\<rparr>],
              db_fault = None, trace = []\<rparr>))
   \<and> filter (key_is ''1'' ''quickbooks'')
        (tokens (snd (upsertTokens
           \<lparr>i_userId = IdStr ''1'', i_provider = ''quickbooks'', i_access_token = ''second'',
            i_refresh_token = None, i_realmId = Some ''r'', i_expires_at = Some 7\<rparr>
           (snd (upsertTokens
              \<lparr>i_userId = IdNum 1, i_provider = ''quickbooks'', i_access_token = ''first'',
               i_refresh_token = Some ''rt'', i_realmId = Some ''r'', i_expires_at = None\<rparr>
              \<lparr>tokens = [\<lparr>user_id = ''2'', provider = ''quickbooks'', access_token = ''z'',
                           refresh_token = None, realm_id = None, expires_at = None\<rparr>],
               db_fault = None, trace = []\<rparr>)))))
      = [\<lparr>user_id = ''1'', provider = ''quickbooks'', access_token = ''second'',
          refresh_token = None, realm_id = Some ''r'', expires_at = Some 7\<rparr>]"
  using upsert_last_write_wins
    [of "\<lparr>tokens = [\<lparr>user_id = ''2'', provider = ''quickbooks'', access_token = ''z'',
                           refresh_token = None, realm_id = None, expires_at = None\<rparr>],
              db_fault = None, trace = []\<rparr>"
        "\<lparr>i_userId = IdStr ''1'', i_provider = ''quickbooks'', i_access_token = ''second'',
            i_refresh_token = None, i_realmId = Some ''r'', i_expires_at = Some 7\<rparr>"
        "\<lparr>i_userId = IdNum 1, i_provider = ''quickbooks'', i_access_token = ''first'',
               i_refresh_token = Some ''rt'', i_realmId = Some ''r'', i_expires_at = None\<rparr>"]
  by (simp add: Number_toString_def digit_char_def row_key_def payload_of_def)

section \<open>Refresh and retry: properties\<close>

lemma getTokens_world:
  "snd (getTokens u p w) = w\<lparr>trace := trace w @ [DbSelect (String_js u) p]\<rparr>"
  by (simp add: getTokens_def Let_def split: option.splits)

lemma getTokens_found:
  "db_fault w = None \<Longrightarrow> filter (key_is (String_js u) p) (tokens w) = [r] \<Longrightarrow>
   fst (getTokens u p w) = Inr (normalize_row (Some r))"
  by (simp add: getTokens_def select_single_def Let_def)

lemma doFetch_world:
  "snd (doFetch auth ev row u os tok w) = w\<lparr>trace := trace w @ [ApiFetch (fetch_request u os tok)]\<rparr>"
  by (simp add: doFetch_def Let_def split: option.splits)

lemma refresh_failed_eq:
  assumes "token_endpoint ev (form_value rt) = Some resp" and "\<not> ok resp"
  shows "refreshWithQbo ev rt uid realm w =
           (Inl (RefreshFailed (status resp) (body_text resp)),
            w\<lparr>trace := trace w @ [TokenEndpoint (form_value rt)]\<rparr>)"
  using assms by (simp add: refreshWithQbo_def Let_def)

lemma counts_append [simp]:
  "fetches (w\<lparr>trace := trace w @ es\<rparr>) = fetches w + length (filter is_fetch es)"
  "refreshes (w\<lparr>trace := trace w @ es\<rparr>) = refreshes w + length (filter is_refresh es)"
  "selects (w\<lparr>trace := trace w @ es\<rparr>) = selects w + length (filter is_select es)"
  "upserts (w\<lparr>trace := trace w @ es\<rparr>) = upserts w + length (filter is_upsert es)"
  by (simp_all add: fetches_def refreshes_def selects_def upserts_def)

lemma getTokens_counts [simp]:
  "fetches (snd (getTokens u p w)) = fetches w"
  "refreshes (snd (getTokens u p w)) = refreshes w"
  by (simp_all add: getTokens_world)

lemma doFetch_counts [simp]:
  "fetches (snd (doFetch auth ev row u os tok w)) = fetches w + 1"
  "refreshes (snd (doFetch auth ev row u os tok w)) = refreshes w"
  by (simp_all add: doFetch_world)

lemma upsertTokens_world:
  "trace (snd (upsertTokens r w)) = trace w @ [DbUpsert (payload_of r)]"
  by (simp add: upsertTokens_def Let_def split: option.splits)

lemma upsertTokens_counts [simp]:
  "fetches (snd (upsertTokens r w)) = fetches w"
  "refreshes (snd (upsertTokens r w)) = refreshes w"
  by (simp_all add: fetches_def refreshes_def upsertTokens_world)

lemma refresh_counts [simp]:
  "fetches (snd (refreshWithQbo ev rt uid realm w)) = fetches w"
  "refreshes (snd (refreshWithQbo ev rt uid realm w)) = refreshes w + 1"
  by (simp_all add: refreshWithQbo_def Let_def split: option.splits)

lemma refresh_and_retry_refreshes:
  "refreshes (snd (refresh_and_retry auth ev ctx row u os w)) = Suc (refreshes w)"
  by (simp add: refresh_and_retry_def case_prod_beta split: sum.split option.split)

lemma refresh_and_retry_fetches:
  "fetches (snd (refresh_and_retry auth ev ctx row u os w)) \<le> Suc (fetches w)"
  by (simp add: refresh_and_retry_def case_prod_beta split: sum.split option.split)

lemma qbRequest_with_refreshes:
  "refreshes (snd (qbRequest_with auth base ev store endpoint os w)) \<le> Suc (refreshes w)"
  by (simp add: qbRequest_with_def case_prod_beta Let_def refresh_and_retry_refreshes
      split: sum.split option.split)

lemma qbRequest_with_fetches:
  "fetches (snd (qbRequest_with auth base ev store endpoint os w)) \<le> Suc (Suc (fetches w))"
proof -
  have f: "\<And>ctx row u w1. fetches w1 = Suc (fetches w) \<Longrightarrow>
     fetches (snd (refresh_and_retry auth ev ctx row u os w1)) \<le> Suc (Suc (fetches w))"
    using refresh_and_retry_fetches by (metis)
  show ?thesis
    by (simp add: qbRequest_with_def case_prod_beta Let_def f split: sum.split option.split)
qed


lemma getTokens_eq:
  "db_fault w = None \<Longrightarrow> filter (key_is (String_js u) p) (tokens w) = [r] \<Longrightarrow>
   getTokens u p w = (Inr (normalize_row (Some r)), w\<lparr>trace := trace w @ [DbSelect (String_js u) p]\<rparr>)"
  by (simp add: getTokens_def select_single_def Let_def)

lemma doFetch_auth_eq:
  "qbo_api ev (fetches w) (fetch_request u os tok) = Some resp \<Longrightarrow> \<not> ok resp \<Longrightarrow> auth resp \<Longrightarrow>
   truthy_str (t_refresh_token row) \<Longrightarrow>
   doFetch auth ev row u os tok w =
     (Inr (needRefresh_obj (body_text resp)), w\<lparr>trace := trace w @ [ApiFetch (fetch_request u os tok)]\<rparr>)"
  by (simp add: doFetch_def Let_def)

lemma doFetch_error_eq:
  "qbo_api ev (fetches w) (fetch_request u os tok) = Some resp \<Longrightarrow> \<not> ok resp \<Longrightarrow> \<not> auth resp \<Longrightarrow>
   doFetch auth ev row u os tok w =
     (Inl (QboError (status resp) (body_text resp)), w\<lparr>trace := trace w @ [ApiFetch (fetch_request u os tok)]\<rparr>)"
  by (simp add: doFetch_def Let_def)

lemma needRefresh_obj [simp]: "needRefresh (needRefresh_obj t)"
  by (simp add: needRefresh_def needRefresh_obj_def)

lemma refresh_ok_eq:
  assumes "token_endpoint ev (form_value rt) = Some resp" and "ok resp" and "db_fault w = None"
  shows "refreshWithQbo ev rt uid realm w =
           (Inr (), w\<lparr>tokens := upsert_row (refreshed_row ev resp rt uid realm) (tokens w),
                       trace := trace w @ [TokenEndpoint (form_value rt),
                                           DbUpsert (refreshed_row ev resp rt uid realm)]\<rparr>)"
  using assms
  by (cases "tj_expires_in (json_body resp)")
     (simp_all add: refreshWithQbo_def Let_def upsertTokens_def payload_of_def refreshed_row_def)

lemma refreshed_row_sel [simp]:
  "user_id (refreshed_row ev resp rt uid realm) = String_js uid"
  "provider (refreshed_row ev resp rt uid realm) = ''quickbooks''"
  "access_token (refreshed_row ev resp rt uid realm) = tj_access_token (json_body resp)"
  "realm_id (refreshed_row ev resp rt uid realm) = realm"
  by (simp_all add: refreshed_row_def)

lemma refresh_and_retry_second:
  assumes db: "db_fault w = None" "distinct (map row_key (tokens w))"
    and row: "userId row = String_js (ctx_userId ctx)"
    and refresh: "token_endpoint ev (form_value (t_refresh_token row)) = Some tresp" "ok tresp"
        "tj_access_token (json_body tresp) \<noteq> []"
  shows "refresh_and_retry auth ev ctx row u os w =
          (case doFetch auth ev row u os (tj_access_token (json_body tresp))
                  (w\<lparr>tokens := upsert_row (refreshed_row ev tresp (t_refresh_token row) (ctx_userId ctx) (realmId row)) (tokens w),
                     trace := trace w @ [TokenEndpoint (form_value (t_refresh_token row)),
                                         DbUpsert (refreshed_row ev tresp (t_refresh_token row) (ctx_userId ctx) (realmId row)),
                                         DbSelect (String_js (ctx_userId ctx)) ''quickbooks'']\<rparr>) of
             (Inl e, w3) \<Rightarrow> (Inl e, w3)
           | (Inr result, w3) \<Rightarrow>
               if needRefresh result then (Inl UnauthorizedAfterRefresh, w3) else (Inr result, w3))"
proof -
  let ?p = "refreshed_row ev tresp (t_refresh_token row) (ctx_userId ctx) (realmId row)"
  let ?w1 = "w\<lparr>tokens := upsert_row ?p (tokens w),
               trace := trace w @ [TokenEndpoint (form_value (t_refresh_token row)), DbUpsert ?p]\<rparr>"
  have r: "refreshWithQbo ev (t_refresh_token row) (ctx_userId ctx) (realmId row) w = (Inr (), ?w1)"
    using refresh(1,2) db(1) by (rule refresh_ok_eq)
  have sel: "filter (key_is (String_js (ctx_userId ctx)) ''quickbooks'') (tokens ?w1) = [?p]"
    using db(2) by (simp add: select_after_upsert)
  have g: "getTokens (ctx_userId ctx) ''quickbooks'' ?w1 =
             (Inr (normalize_row (Some ?p)), ?w1\<lparr>trace := trace ?w1 @ [DbSelect (String_js (ctx_userId ctx)) ''quickbooks'']\<rparr>)"
    using sel db(1) by (intro getTokens_eq) simp_all
  show ?thesis
    using refresh(3) by (simp add: refresh_and_retry_def r g normalize_row_def)
qed


lemma qbRequest_with_second_failure:
  assumes db: "db_fault w = None" "distinct (map row_key (tokens w))"
    and row: "filter (key_is (String_js (ctx_userId ctx)) ''quickbooks'') (tokens w) = [r]"
    and cred: "access_token r \<noteq> []" "realm_id r = Some realm" "realm \<noteq> []"
        "truthy_str (refresh_token r)"
    and u: "u = build_url base realm endpoint (MINOR_VERSION ev)"
    and first: "qbo_api ev (fetches w) (fetch_request u os (access_token r)) = Some resp1"
        "\<not> ok resp1" "auth resp1"
    and refresh: "token_endpoint ev (form_value (refresh_token r)) = Some tresp" "ok tresp"
        "tj_access_token (json_body tresp) \<noteq> []"
    and second: "qbo_api ev (Suc (fetches w)) (fetch_request u os (tj_access_token (json_body tresp)))
                   = Some resp2" "\<not> ok resp2"
  shows "qbRequest_with auth base ev (Some ctx) endpoint os w =
           (if auth resp2 then Inl UnauthorizedAfterRefresh
            else Inl (QboError (status resp2) (body_text resp2)),
            w\<lparr>tokens := upsert_row (refreshed_row ev tresp (refresh_token r) (ctx_userId ctx) (Some realm))
                           (tokens w),
              trace := trace w @
                [DbSelect (String_js (ctx_userId ctx)) ''quickbooks'',
                 ApiFetch (fetch_request u os (access_token r)),
                 TokenEndpoint (form_value (refresh_token r)),
                 DbUpsert (refreshed_row ev tresp (refresh_token r) (ctx_userId ctx) (Some realm)),
                 DbSelect (String_js (ctx_userId ctx)) ''quickbooks'',
                 ApiFetch (fetch_request u os (tj_access_token (json_body tresp)))]\<rparr>)"
proof -
  let ?row = "\<lparr>userId = user_id r, t_provider = provider r, t_access_token = access_token r,
                t_refresh_token = refresh_token r, realmId = Some realm, t_expires_at = expires_at r\<rparr>"
  let ?w1 = "w\<lparr>trace := trace w @ [DbSelect (String_js (ctx_userId ctx)) ''quickbooks'']\<rparr>"
  let ?w2 = "?w1\<lparr>trace := trace ?w1 @ [ApiFetch (fetch_request u os (access_token r))]\<rparr>"
  let ?p = "refreshed_row ev tresp (refresh_token r) (ctx_userId ctx) (Some realm)"
  let ?w3 = "?w2\<lparr>tokens := upsert_row ?p (tokens ?w2),
               trace := trace ?w2 @ [TokenEndpoint (form_value (refresh_token r)), DbUpsert ?p,
                                     DbSelect (String_js (ctx_userId ctx)) ''quickbooks'']\<rparr>"
  have uid: "user_id r = String_js (ctx_userId ctx)"
  proof -
    have "r \<in> set (filter (key_is (String_js (ctx_userId ctx)) ''quickbooks'') (tokens w))"
      using row by simp
    then show ?thesis by (simp add: key_is_def)
  qed
  have g: "getTokens (ctx_userId ctx) ''quickbooks'' w = (Inr (Some ?row), ?w1)"
    using getTokens_eq [OF db(1) row] cred(2) by (simp add: normalize_row_def)
  have f1: "doFetch auth ev ?row u os (access_token r) ?w1 = (Inr (needRefresh_obj (body_text resp1)), ?w2)"
    using first cred(4) by (intro doFetch_auth_eq) simp_all
  have rr: "refresh_and_retry auth ev ctx ?row u os ?w2 =
          (case doFetch auth ev ?row u os (tj_access_token (json_body tresp)) ?w3 of
             (Inl e, w3) \<Rightarrow> (Inl e, w3)
           | (Inr result, w3) \<Rightarrow>
               if needRefresh result then (Inl UnauthorizedAfterRefresh, w3) else (Inr result, w3))"
    using refresh_and_retry_second [of ?w2 ?row ctx ev tresp auth u os] db uid refresh cred(2)
    by simp
  have f2a: "auth resp2 \<Longrightarrow> doFetch auth ev ?row u os (tj_access_token (json_body tresp)) ?w3 =
      (Inr (needRefresh_obj (body_text resp2)),
       ?w3\<lparr>trace := trace ?w3 @ [ApiFetch (fetch_request u os (tj_access_token (json_body tresp)))]\<rparr>)"
    using second cred(4) by (intro doFetch_auth_eq) (simp_all add: fetches_def)
  have f2b: "\<not> auth resp2 \<Longrightarrow> doFetch auth ev ?row u os (tj_access_token (json_body tresp)) ?w3 =
      (Inl (QboError (status resp2) (body_text resp2)),
       ?w3\<lparr>trace := trace ?w3 @ [ApiFetch (fetch_request u os (tj_access_token (json_body tresp)))]\<rparr>)"
    using second by (intro doFetch_error_eq) (simp_all add: fetches_def)
  have q: "qbRequest_with auth base ev (Some ctx) endpoint os w = refresh_and_retry auth ev ctx ?row u os ?w2"
    using cred by (simp add: qbRequest_with_def g u [symmetric] f1 Let_def)
  show ?thesis
  proof (cases "auth resp2")
    case True
    then show ?thesis by (subst q, subst rr, subst f2a) simp_all
  next
    case False
    then show ?thesis by (subst q, subst rr, subst f2b) simp_all
  qed
qed

text \<open>
  C5 (amended). Whenever the token endpoint answers 2xx, the store being up, the refresh
  client upserts the record of that user and provider \<open>quickbooks\<close> with: the new
  access token; the rotated refresh token when the reply has one and the refresh token
  it was called with otherwise; the account handle it was called with; and an expiry of
  now + \<open>expires_in\<close> when the reply has a non-zero \<open>expires_in\<close>, null when it has none
  or has 0. It is one upsert, and one row for the key.
\<close>

theorem refresh_success_upserts:
  assumes "token_endpoint ev (form_value rt) = Some resp" and "ok resp"
    and "db_fault w = None" and "distinct (map row_key (tokens w))"
  shows "fst (refreshWithQbo ev rt uid realm w) = Inr ()
       \<and> fst (getTokens uid ''quickbooks'' (snd (refreshWithQbo ev rt uid realm w))) =
           Inr (Some \<lparr>userId = String_js uid, t_provider = ''quickbooks'',
                      t_access_token = tj_access_token (json_body resp),
                      t_refresh_token =
                        (case tj_refresh_token (json_body resp) of None \<Rightarrow> rt | Some r \<Rightarrow> Some r),
                      realmId = realm,
                      t_expires_at =
                        (case tj_expires_in (json_body resp) of
                           None \<Rightarrow> None
                         | Some n \<Rightarrow> if n = 0 then None else Some (now_seconds ev + n))\<rparr>)
       \<and> upserts (snd (refreshWithQbo ev rt uid realm w)) = upserts w + 1
       \<and> length (filter (key_is (String_js uid) ''quickbooks'')
             (tokens (snd (refreshWithQbo ev rt uid realm w)))) = 1"
proof -
  let ?p = "refreshed_row ev resp rt uid realm"
  let ?w1 = "w\<lparr>tokens := upsert_row ?p (tokens w),
               trace := trace w @ [TokenEndpoint (form_value rt), DbUpsert ?p]\<rparr>"
  have r: "refreshWithQbo ev rt uid realm w = (Inr (), ?w1)"
    using assms(1,2,3) by (rule refresh_ok_eq)
  have sel: "filter (key_is (String_js uid) ''quickbooks'') (tokens ?w1) = [?p]"
    using assms(4) by (simp add: select_after_upsert)
  have g: "fst (getTokens uid ''quickbooks'' ?w1) = Inr (normalize_row (Some ?p))"
    using sel assms(3) by (intro getTokens_found) simp_all
  have u: "upserts ?w1 = upserts w + 1"
    by (simp add: upserts_def)
  show ?thesis
    unfolding r using g sel u by (simp add: normalize_row_def refreshed_row_def)
qed

text \<open>
  C6. Whenever the token endpoint answers with a status outside 2xx, the refresh client
  raises an error that carries that status and the response body, has called the
  endpoint once and not again, and has written nothing: the table is as it was and no
  upsert was issued.
\<close>

theorem refresh_failure_no_upsert:
  assumes "token_endpoint ev (form_value rt) = Some resp" and "\<not> ok resp"
  shows "fst (refreshWithQbo ev rt uid realm w) = Inl (RefreshFailed (status resp) (body_text resp))
       \<and> tokens (snd (refreshWithQbo ev rt uid realm w)) = tokens w
       \<and> trace (snd (refreshWithQbo ev rt uid realm w)) = trace w @ [TokenEndpoint (form_value rt)]
       \<and> upserts (snd (refreshWithQbo ev rt uid realm w)) = upserts w
       \<and> refreshes (snd (refreshWithQbo ev rt uid realm w)) = refreshes w + 1"
  using refresh_failed_eq [OF assms, of uid realm w] by (simp add: upserts_def refreshes_def)

theorem refresh_failure_no_upsert_witness:
  "token_endpoint (scenario_env (grant None\<lparr>status := 400, body_text := ''invalid_grant''\<rparr>)
       \<lparr>status = 401, body_text = []\<rparr> \<lparr>status = 401, body_text = []\<rparr>) (form_value (Some ''refresh-1''))
     = Some (grant None\<lparr>status := 400, body_text := ''invalid_grant''\<rparr>)
   \<and> \<not> ok (grant None\<lparr>status := 400, body_text := ''invalid_grant''\<rparr>)
   \<and> fst (refreshWithQbo (scenario_env (grant None\<lparr>status := 400, body_text := ''invalid_grant''\<rparr>)
       \<lparr>status = 401, body_text = []\<rparr> \<lparr>status = 401, body_text = []\<rparr>) (Some ''refresh-1'')
         (IdStr ''u1'') (Some ''realm-9'') u1_world) = Inl (RefreshFailed 400 ''invalid_grant'')
   \<and> tokens (snd (refreshWithQbo (scenario_env (grant None\<lparr>status := 400, body_text := ''invalid_grant''\<rparr>)
       \<lparr>status = 401, body_text = []\<rparr> \<lparr>status = 401, body_text = []\<rparr>) (Some ''refresh-1'')
         (IdStr ''u1'') (Some ''realm-9'') u1_world)) = [u1_row]"
  using refresh_failure_no_upsert
    [of "scenario_env (grant None\<lparr>status := 400, body_text := ''invalid_grant''\<rparr>)
       \<lparr>status = 401, body_text = []\<rparr> \<lparr>status = 401, body_text = []\<rparr>" "Some ''refresh-1''"
       "grant None\<lparr>status := 400, body_text := ''invalid_grant''\<rparr>" "IdStr ''u1''" "Some ''realm-9''" u1_world]
  by (simp add: u1_world_def grant_def scenario_env_def form_value_def ok_def)

theorem refresh_success_upserts_witness:
  "token_endpoint (scenario_env (grant (Some 3600)) \<lparr>status = 401, body_text = []\<rparr>
        \<lparr>status = 200, body_text = []\<rparr>) (form_value (Some ''refresh-1'')) = Some (grant (Some 3600))
   \<and> ok (grant (Some 3600)) \<and> db_fault u1_world = None \<and> distinct (map row_key (tokens u1_world))
   \<and> fst (getTokens (IdStr ''u1'') ''quickbooks''
         (snd (refreshWithQbo (scenario_env (grant (Some 3600)) \<lparr>status = 401, body_text = []\<rparr>
                 \<lparr>status = 200, body_text = []\<rparr>) (Some ''refresh-1'') (IdStr ''u1'') (Some ''realm-9'')
               u1_world))) =
       Inr (Some \<lparr>userId = ''u1'', t_provider = ''quickbooks'', t_access_token = ''fresh'',
                  t_refresh_token = Some ''refresh-1'', realmId = Some ''realm-9'',
                  t_expires_at = Some 4600\<rparr>)"
  using refresh_success_upserts
    [of "scenario_env (grant (Some 3600)) \<lparr>status = 401, body_text = []\<rparr> \<lparr>status = 200, body_text = []\<rparr>"
        "Some ''refresh-1''" "grant (Some 3600)" u1_world "IdStr ''u1''" "Some ''realm-9''"]
  by (simp add: u1_world_def u1_row_def grant_def scenario_env_def form_value_def ok_def row_key_def)

text \<open>
  C5 as stated fails when the provider supplies \<open>expires_in = 0\<close>: the stored expiry is
  null, not now + 0.
\<close>

theorem refresh_expires_in_zero_counterexample:
  "ok (grant (Some 0))
   \<and> tj_expires_in (json_body (grant (Some 0))) = Some 0
   \<and> fst (getTokens (IdStr ''u1'') ''quickbooks''
         (snd (refreshWithQbo (scenario_env (grant (Some 0)) \<lparr>status = 401, body_text = []\<rparr>
                 \<lparr>status = 200, body_text = []\<rparr>) (Some ''refresh-1'') (IdStr ''u1'') (Some ''realm-9'')
               u1_world))) =
       Inr (Some \<lparr>userId = ''u1'', t_provider = ''quickbooks'', t_access_token = ''fresh'',
                  t_refresh_token = Some ''refresh-1'', realmId = Some ''realm-9'',
                  t_expires_at = None\<rparr>)
   \<and> (None :: int option) \<noteq> Some (now_seconds (scenario_env (grant (Some 0)) \<lparr>status = 401, body_text = []\<rparr>
                 \<lparr>status = 200, body_text = []\<rparr>) + 0)"
  by (simp add: fixture_defs refreshWithQbo_def form_value_def ok_def Let_def upsertTokens_def
      payload_of_def getTokens_def select_single_def key_is_def row_key_def normalize_row_def)

lemma isAuthError_not_ok: "isAuthError resp \<Longrightarrow> \<not> ok resp"
  by (auto simp: isAuthError_def ok_def)

lemma isAuthError_sandbox_not_ok: "isAuthError_sandbox resp \<Longrightarrow> \<not> ok resp"
  by (auto simp: isAuthError_sandbox_def ok_def)

section \<open>Session verification: properties\<close>

lemma bearer_request_sel [simp]:
  "bearer_token (bearer_request tok sid t) = tok"
  "arrival (bearer_request tok sid t) = t"
  "query_sessionId (bearer_request tok sid t) = sid"
  "body (bearer_request tok sid t) = ''customer/1''"
  by (simp_all add: bearer_token_def bearer_request_def startsWith_def toLowerCase_def lower_char_def Let_def)

lemma invalid_session_fresh:
  "invalid_session fresh_res = (None, send_json 401 ''invalid_session'' fresh_res)"
  by (simp add: invalid_session_def fresh_res_def)

lemma requireSession_res:
  "requireSession srv cfg req res =
     (fst (requireSession srv cfg req res),
      if fst (requireSession srv cfg req res) = None then snd (invalid_session res) else res)"
  by (cases srv)
     (simp_all add: requireSession_sandbox_def requireSession_qb_def requireSession_hcp_def
        invalid_session_def split: sum.split)

lemma requireSession_None_iff:
  "fst (requireSession srv cfg req res) = None \<longleftrightarrow>
     (case jwt_decode cfg (bearer_token req) of
        None \<Rightarrow> True
      | Some t \<Rightarrow>
          signed_with t \<noteq> SESSION_JWT_SECRET cfg
          \<or> (case j_exp t of None \<Rightarrow> False | Some e \<Rightarrow> e \<le> arrival req)
          \<or> (srv = HousecallPro \<and>
               (j_aud t \<noteq> Some ''housecallpro-mcp'' \<or> j_iss t \<noteq> Some (SESSION_JWT_ISSUER cfg)))
          \<or> \<not> truthy_id (j_userId t))"
  by (cases srv)
     (auto simp add: requireSession_sandbox_def requireSession_qb_def requireSession_hcp_def
        invalid_session_def jwt_verify_def split: sum.split option.split)

lemma hcp_rejects_other_audience:
  "jwt_decode cfg (bearer_token req) = Some t \<Longrightarrow> j_aud t \<noteq> Some ''housecallpro-mcp'' \<Longrightarrow>
   fst (requireSession_hcp cfg req res) = None"
  using requireSession_None_iff [of HousecallPro cfg req res] by simp




text \<open>
  C1 fails on both QuickBooks servers: a token minted with audience
  \<open>housecallpro-mcp\<close>, presented to them, is accepted and yields the context of user 1.
  The Housecall Pro server does reject a token minted for another audience (here \<open>mcp\<close>;
  for every token, lemma \<open>hcp_rejects_other_audience\<close>).
\<close>

theorem quickbooks_accepts_other_audience:
  "j_aud (jwt_sign (IdNum 1) 0 ''secret'' ''housecallpro-mcp'' ''backend'' 3600) = Some ''housecallpro-mcp''
   \<and> fst (requireSession QuickBooks
          (session_cfg [(''tok'', jwt_sign (IdNum 1) 0 ''secret'' ''housecallpro-mcp'' ''backend'' 3600)])
          (bearer_request ''tok'' None 10) fresh_res) = Some \<lparr>ctx_userId = IdStr ''1''\<rparr>
   \<and> fst (requireSession QuickBooksSandbox
          (session_cfg [(''tok'', jwt_sign (IdNum 1) 0 ''secret'' ''housecallpro-mcp'' ''backend'' 3600)])
          (bearer_request ''tok'' None 10) fresh_res) = Some \<lparr>ctx_userId = IdNum 1\<rparr>
   \<and> fst (requireSession HousecallPro
          (session_cfg [(''tok'', jwt_sign (IdNum 1) 0 ''secret'' ''mcp'' ''backend'' 3600)])
          (bearer_request ''tok'' None 10) fresh_res) = None"
  by (simp add: requireSession_qb_def requireSession_sandbox_def requireSession_hcp_def jwt_verify_def
      session_cfg_def jwt_sign_def invalid_session_def fresh_res_def
      Number_toString_def digit_char_def)

section \<open>Streams and message posts: properties\<close>

lemma requireSession_cases:
  obtains (rejected) "requireSession srv cfg req fresh_res =
                        (None, \<lparr>headersSent = True, replies = [(401, ''invalid_session'')]\<rparr>)"
        | (accepted) sess where "requireSession srv cfg req fresh_res = (Some sess, fresh_res)"
proof (cases "fst (requireSession srv cfg req fresh_res)")
  case None
  then have "requireSession srv cfg req fresh_res =
               (None, \<lparr>headersSent = True, replies = [(401, ''invalid_session'')]\<rparr>)"
    using requireSession_res [of srv cfg req fresh_res]
    by (simp add: invalid_session_def fresh_res_def send_json_def)
  then show ?thesis by (rule rejected)
next
  case (Some sess)
  then have "requireSession srv cfg req fresh_res = (Some sess, fresh_res)"
    using requireSession_res [of srv cfg req fresh_res] by simp
  then show ?thesis by (rule accepted)
qed

lemma messages_unregistered:
  assumes "activeTransports a (post_sessionId req) = None"
  shows "messages srv cfg h req a =
           (a, if fst (requireSession srv cfg req fresh_res) = None
               then \<lparr>headersSent = True, replies = [(401, ''invalid_session'')]\<rparr>
               else \<lparr>headersSent = True, replies = [(400, ''no_active_transport'')]\<rparr>)"
proof (cases rule: requireSession_cases [of srv cfg req])
  case rejected
  then show ?thesis by (simp add: messages_def)
next
  case (accepted sess)
  then show ?thesis using assms by (simp add: messages_def fresh_res_def send_json_def)
qed

lemma step_keeps_closed:
  assumes "activeTransports a sid = None" and "\<not> opens sid e"
  shows "activeTransports (step srv cfg h a e) sid = None"
proof (cases e)
  case (GetSse req tsid stream outcome)
  then show ?thesis
    using assms
    by (cases rule: requireSession_cases [of srv cfg req])
       (auto simp: sse_def Let_def split: connect_outcome.split)
next
  case (PostMessages req)
  then show ?thesis
    using assms
    by (cases rule: requireSession_cases [of srv cfg req])
       (auto simp: messages_def Let_def split: option.split)
next
  case (Close s)
  then show ?thesis using assms by (simp add: on_close_def)
qed

lemma run_keeps_closed:
  "activeTransports a sid = None \<Longrightarrow> \<forall>e\<in>set evs. \<not> opens sid e \<Longrightarrow>
   activeTransports (run srv cfg h a evs) sid = None"
proof (induction evs arbitrary: a)
  case Nil
  then show ?case by (simp add: run_def)
next
  case (Cons e evs)
  have "activeTransports (step srv cfg h a e) sid = None"
    using Cons.prems by (intro step_keeps_closed) simp_all
  then have "activeTransports (run srv cfg h (step srv cfg h a e) evs) sid = None"
    using Cons.prems by (intro Cons.IH) simp_all
  then show ?case by (simp add: run_def)
qed

text \<open>
  C7 (amended). A message post whose session id identifies no registered stream is
  rejected and changes nothing, no transport being created: with 400
  \<open>no_active_transport\<close> when its session token verifies, with 401 \<open>invalid_session\<close>
  when it does not. That holds in particular after the stream's close listener has run,
  whatever requests follow, as long as no new stream is opened under the same id.
\<close>

theorem closed_session_not_served:
  "(activeTransports a (post_sessionId req) = None \<longrightarrow>
      messages srv cfg h req a =
        (a, if fst (requireSession srv cfg req fresh_res) = None
            then \<lparr>headersSent = True, replies = [(401, ''invalid_session'')]\<rparr>
            else \<lparr>headersSent = True, replies = [(400, ''no_active_transport'')]\<rparr>))
   \<and> ((\<forall>e\<in>set evs. \<not> opens (post_sessionId req) e) \<longrightarrow>
      messages srv cfg h req (run srv cfg h (on_close (post_sessionId req) a) evs) =
        (run srv cfg h (on_close (post_sessionId req) a) evs,
         if fst (requireSession srv cfg req fresh_res) = None
         then \<lparr>headersSent = True, replies = [(401, ''invalid_session'')]\<rparr>
         else \<lparr>headersSent = True, replies = [(400, ''no_active_transport'')]\<rparr>))"
proof -
  have c: "activeTransports (on_close (post_sessionId req) a) (post_sessionId req) = None"
    by (simp add: on_close_def)
  have "activeTransports a (post_sessionId req) = None \<Longrightarrow>
      messages srv cfg h req a =
        (a, if fst (requireSession srv cfg req fresh_res) = None
            then \<lparr>headersSent = True, replies = [(401, ''invalid_session'')]\<rparr>
            else \<lparr>headersSent = True, replies = [(400, ''no_active_transport'')]\<rparr>)"
    by (rule messages_unregistered)
  moreover have "\<forall>e\<in>set evs. \<not> opens (post_sessionId req) e \<Longrightarrow>
      messages srv cfg h req (run srv cfg h (on_close (post_sessionId req) a) evs) =
        (run srv cfg h (on_close (post_sessionId req) a) evs,
         if fst (requireSession srv cfg req fresh_res) = None
         then \<lparr>headersSent = True, replies = [(401, ''invalid_session'')]\<rparr>
         else \<lparr>headersSent = True, replies = [(400, ''no_active_transport'')]\<rparr>)"
    using run_keeps_closed [OF c] by (intro messages_unregistered) blast
  ultimately show ?thesis by blast
qed


theorem closed_session_not_served_witness:
  "activeTransports empty_app (post_sessionId (bearer_request ''tokA'' (Some ''s1'') 20)) = None
   \<and> \<not> opens (post_sessionId (bearer_request ''tokA'' (Some ''s1'') 20))
          (GetSse (bearer_request ''tokA'' None 12) ''s2'' 1 ConnectOk)
   \<and> \<not> opens (post_sessionId (bearer_request ''tokA'' (Some ''s1'') 20)) (Close ''s9'')
   \<and> fst (requireSession QuickBooks
          (session_cfg [(''tokA'', jwt_sign (IdStr ''u1'') 0 ''secret'' ''mcp'' ''backend'' 3600)])
          (bearer_request ''tokA'' (Some ''s1'') 20) fresh_res) = Some u1_ctx
   \<and> activeTransports
        (fst (sse QuickBooks
               (session_cfg [(''tokA'', jwt_sign (IdStr ''u1'') 0 ''secret'' ''mcp'' ''backend'' 3600)])
               (bearer_request ''tokA'' None 10) ''s1'' 0 ConnectOk empty_app)) ''s1'' = Some 0
   \<and> snd (messages QuickBooks
          (session_cfg [(''tokA'', jwt_sign (IdStr ''u1'') 0 ''secret'' ''mcp'' ''backend'' 3600)])
          (qb_tools (scenario_env (grant None) \<lparr>status = 200, body_text = []\<rparr> \<lparr>status = 200, body_text = []\<rparr>))
          (bearer_request ''tokA'' (Some ''s1'') 20)
          (run QuickBooks
             (session_cfg [(''tokA'', jwt_sign (IdStr ''u1'') 0 ''secret'' ''mcp'' ''backend'' 3600)])
             (qb_tools (scenario_env (grant None) \<lparr>status = 200, body_text = []\<rparr> \<lparr>status = 200, body_text = []\<rparr>))
             (on_close (post_sessionId (bearer_request ''tokA'' (Some ''s1'') 20))
                (fst (sse QuickBooks
                  (session_cfg [(''tokA'', jwt_sign (IdStr ''u1'') 0 ''secret'' ''mcp'' ''backend'' 3600)])
                  (bearer_request ''tokA'' None 10) ''s1'' 0 ConnectOk empty_app)))
             [GetSse (bearer_request ''tokA'' None 12) ''s2'' 1 ConnectOk, Close ''s9'']))
       = \<lparr>headersSent = True, replies = [(400, ''no_active_transport'')]\<rparr>"
  using closed_session_not_served
    [of empty_app "bearer_request ''tokA'' (Some ''s1'') 20" QuickBooks
        "session_cfg [(''tokA'', jwt_sign (IdStr ''u1'') 0 ''secret'' ''mcp'' ''backend'' 3600)]"
        "qb_tools (scenario_env (grant None) \<lparr>status = 200, body_text = []\<rparr> \<lparr>status = 200, body_text = []\<rparr>)"
        "[GetSse (bearer_request ''tokA'' None 12) ''s2'' 1 ConnectOk, Close ''s9'']"]
    closed_session_not_served
    [of "fst (sse QuickBooks
                  (session_cfg [(''tokA'', jwt_sign (IdStr ''u1'') 0 ''secret'' ''mcp'' ''backend'' 3600)])
                  (bearer_request ''tokA'' None 10) ''s1'' 0 ConnectOk empty_app)"
        "bearer_request ''tokA'' (Some ''s1'') 20" QuickBooks
        "session_cfg [(''tokA'', jwt_sign (IdStr ''u1'') 0 ''secret'' ''mcp'' ''backend'' 3600)]"
        "qb_tools (scenario_env (grant None) \<lparr>status = 200, body_text = []\<rparr> \<lparr>status = 200, body_text = []\<rparr>)"
        "[GetSse (bearer_request ''tokA'' None 12) ''s2'' 1 ConnectOk, Close ''s9'']"]
  by (simp add: requireSession_qb_def jwt_verify_def session_cfg_def jwt_sign_def
      fresh_res_def empty_app_def post_sessionId_def stream_sessionId_def sse_def u1_ctx_def
      run_def on_close_def messages_def send_json_def Let_def)

text \<open>
  C7 as stated fails: a post for an unregistered session id whose token does not verify
  is answered 401 \<open>invalid_session\<close>, not 400 \<open>no_active_transport\<close>.
\<close>

theorem unauthenticated_post_gets_401_counterexample:
  "activeTransports empty_app (post_sessionId (bearer_request ''junk'' (Some ''s1'') 20)) = None
   \<and> snd (messages QuickBooks (session_cfg [])
          (qb_tools (scenario_env (grant None) \<lparr>status = 200, body_text = []\<rparr> \<lparr>status = 200, body_text = []\<rparr>))
          (bearer_request ''junk'' (Some ''s1'') 20) empty_app)
       = \<lparr>headersSent = True, replies = [(401, ''invalid_session'')]\<rparr>
   \<and> snd (messages QuickBooks (session_cfg [])
          (qb_tools (scenario_env (grant None) \<lparr>status = 200, body_text = []\<rparr> \<lparr>status = 200, body_text = []\<rparr>))
          (bearer_request ''junk'' (Some ''s1'') 20) empty_app)
       \<noteq> \<lparr>headersSent = True, replies = [(400, ''no_active_transport'')]\<rparr>"
  by (simp add: messages_def requireSession_qb_def jwt_verify_def session_cfg_def invalid_session_def
      fresh_res_def send_json_def empty_app_def)

lemma sse_observed:
  "observed (fst (sse srv cfg req tsid stream outcome a)) =
     observed a @ (case fst (requireSession srv cfg req fresh_res) of
                     None \<Rightarrow> []
                   | Some sess \<Rightarrow> [Connected (stream_sessionId tsid) sess])"
  by (cases rule: requireSession_cases [of srv cfg req])
     (simp_all add: sse_def Let_def split: connect_outcome.split)

lemma messages_observed:
  "observed (fst (messages srv cfg h req a)) =
     observed a @ (case fst (requireSession srv cfg req fresh_res) of
                     None \<Rightarrow> []
                   | Some sess \<Rightarrow>
                       (case activeTransports a (post_sessionId req) of
                          None \<Rightarrow> []
                        | Some t \<Rightarrow> [Handled (post_sessionId req) sess (body req)]))"
  by (cases rule: requireSession_cases [of srv cfg req])
     (simp_all add: messages_def Let_def split: option.split)

lemma messages_handled:
  assumes "fst (requireSession srv cfg req fresh_res) = Some sess"
    and "activeTransports a (post_sessionId req) = Some t"
  shows "fst (messages srv cfg h req a) =
           a\<lparr>observed := observed a @ [Handled (post_sessionId req) sess (body req)],
             outside := h (Some sess) t (body req) (outside a)\<rparr>"
  using assms
  by (cases rule: requireSession_cases [of srv cfg req]) (simp_all add: messages_def Let_def)

lemma step_handled:
  assumes "Handled sid c m \<in> set (observed (step srv cfg h a e))"
    and "Handled sid c m \<notin> set (observed a)"
  shows "\<exists>req. e = PostMessages req \<and> fst (requireSession srv cfg req fresh_res) = Some c
           \<and> post_sessionId req = sid \<and> body req = m"
proof (cases e)
  case (GetSse req tsid stream outcome)
  then show ?thesis using assms by (auto simp: sse_observed split: option.splits)
next
  case (PostMessages req)
  then show ?thesis using assms by (auto simp: messages_observed split: option.splits)
next
  case (Close s)
  then show ?thesis using assms by (simp add: on_close_def)
qed

lemma step_connected:
  assumes "Connected sid c \<in> set (observed (step srv cfg h a e))"
    and "Connected sid c \<notin> set (observed a)"
  shows "\<exists>req tsid stream outcome. e = GetSse req tsid stream outcome
           \<and> fst (requireSession srv cfg req fresh_res) = Some c \<and> stream_sessionId tsid = sid"
proof (cases e)
  case (GetSse req tsid stream outcome)
  then show ?thesis using assms by (auto simp: sse_observed split: option.splits)
next
  case (PostMessages req)
  then show ?thesis using assms by (auto simp: messages_observed split: option.splits)
next
  case (Close s)
  then show ?thesis using assms by (simp add: on_close_def)
qed

lemma run_handled:
  "Handled sid c m \<in> set (observed (run srv cfg h a evs)) \<Longrightarrow> Handled sid c m \<notin> set (observed a) \<Longrightarrow>
   \<exists>req. PostMessages req \<in> set evs \<and> fst (requireSession srv cfg req fresh_res) = Some c
         \<and> post_sessionId req = sid \<and> body req = m"
proof (induction evs arbitrary: a)
  case Nil
  then show ?case by (simp add: run_def)
next
  case (Cons e evs)
  have r: "run srv cfg h a (e # evs) = run srv cfg h (step srv cfg h a e) evs"
    by (simp add: run_def)
  show ?case
  proof (cases "Handled sid c m \<in> set (observed (step srv cfg h a e))")
    case True
    then show ?thesis using step_handled [OF True Cons.prems(2)] by auto
  next
    case False
    then show ?thesis using Cons.IH [of "step srv cfg h a e"] Cons.prems(1) r by auto
  qed
qed

lemma run_connected:
  "Connected sid c \<in> set (observed (run srv cfg h a evs)) \<Longrightarrow> Connected sid c \<notin> set (observed a) \<Longrightarrow>
   \<exists>req tsid stream outcome. GetSse req tsid stream outcome \<in> set evs
         \<and> fst (requireSession srv cfg req fresh_res) = Some c \<and> stream_sessionId tsid = sid"
proof (induction evs arbitrary: a)
  case Nil
  then show ?case by (simp add: run_def)
next
  case (Cons e evs)
  have r: "run srv cfg h a (e # evs) = run srv cfg h (step srv cfg h a e) evs"
    by (simp add: run_def)
  show ?case
  proof (cases "Connected sid c \<in> set (observed (step srv cfg h a e))")
    case True
    then show ?thesis using step_connected [OF True Cons.prems(2)] by (simp, blast)
  next
    case False
    then show ?thesis using Cons.IH [of "step srv cfg h a e"] Cons.prems(1) r by (simp, blast)
  qed
qed


text \<open>
  C3 (amended). One verified identity is bound when a stream opens: each context under
  which \<open>server.connect\<close> ran for a session id is the one verified from the token of a
  stream-open request for that id. Every tool-invocation message handled for a session id
  observes the identity verified from the session token of its own message-post request:
  the handler runs the transport under that context, and each handled message in a run
  goes back to a post with that id, that body and a token verifying to that identity.
  The server does not compare it with the identity bound when the stream was opened.
\<close>

theorem handled_under_own_token:
  "(fst (requireSession srv cfg req fresh_res) = Some sess
      \<and> activeTransports a (post_sessionId req) = Some t \<longrightarrow>
      fst (messages srv cfg h req a) =
        a\<lparr>observed := observed a @ [Handled (post_sessionId req) sess (body req)],
          outside := h (Some sess) t (body req) (outside a)\<rparr>)
   \<and> (Handled sid c m \<in> set (observed (run srv cfg h a evs)) \<and> Handled sid c m \<notin> set (observed a) \<longrightarrow>
        (\<exists>rq. PostMessages rq \<in> set evs \<and> fst (requireSession srv cfg rq fresh_res) = Some c
              \<and> post_sessionId rq = sid \<and> body rq = m))
   \<and> (Connected sid c \<in> set (observed (run srv cfg h a evs)) \<and> Connected sid c \<notin> set (observed a) \<longrightarrow>
        (\<exists>rq tsid stream outcome. GetSse rq tsid stream outcome \<in> set evs
              \<and> fst (requireSession srv cfg rq fresh_res) = Some c \<and> stream_sessionId tsid = sid))"
  using messages_handled [of srv cfg req sess a t h] run_handled [of sid c m srv cfg h a evs]
    run_connected [of sid c srv cfg h a evs]
  by blast

lemma cross_post_run:
  "observed (run QuickBooks two_tenants (qb_tools quiet_env) empty_app cross_post) =
     [Connected ''s1'' \<lparr>ctx_userId = IdStr ''u1''\<rparr>,
      Connected ''s2'' \<lparr>ctx_userId = IdStr ''u2''\<rparr>,
      Handled ''s1'' \<lparr>ctx_userId = IdStr ''u2''\<rparr> ''customer/1'']"
  by (simp add: cross_post_def run_def two_tenants_def requireSession_qb_def jwt_verify_def
      session_cfg_def jwt_sign_def fresh_res_def empty_app_def post_sessionId_def
      stream_sessionId_def sse_def messages_def send_json_def Let_def)

text \<open>
  C3 as stated fails: with streams \<open>s1\<close> of \<open>u1\<close> and \<open>s2\<close> of \<open>u2\<close> open, a message posted
  to \<open>s1\<close> with the token of \<open>u2\<close> is handled on \<open>s1\<close> under the identity \<open>u2\<close>, the one
  bound to \<open>s2\<close>, and its tool reads the credential of \<open>u2\<close>.
\<close>

theorem stream_identity_counterexample:
  "observed (run QuickBooks two_tenants (qb_tools quiet_env) empty_app cross_post) =
     [Connected ''s1'' \<lparr>ctx_userId = IdStr ''u1''\<rparr>,
      Connected ''s2'' \<lparr>ctx_userId = IdStr ''u2''\<rparr>,
      Handled ''s1'' \<lparr>ctx_userId = IdStr ''u2''\<rparr> ''customer/1'']
   \<and> \<lparr>ctx_userId = IdStr ''u2''\<rparr> \<noteq> \<lparr>ctx_userId = IdStr ''u1''\<rparr>
   \<and> trace (outside (run QuickBooks two_tenants (qb_tools quiet_env) empty_app cross_post)) =
       [DbSelect ''u2'' ''quickbooks'']"
  by (simp add: cross_post_def run_def two_tenants_def requireSession_qb_def jwt_verify_def
      session_cfg_def jwt_sign_def fresh_res_def empty_app_def post_sessionId_def
      stream_sessionId_def sse_def messages_def send_json_def Let_def
      qb_tools_def qbRequest_def qbRequest_with_def getTokens_def select_single_def
      u1_world_def u1_row_def key_is_def normalize_row_def)

lemma two_streams_run:
  "run QuickBooks two_tenants (qb_tools quiet_env) empty_app (butlast cross_post) =
     \<lparr>activeTransports = [''s1'' \<mapsto> 0, ''s2'' \<mapsto> 1],
      observed = [Connected ''s1'' \<lparr>ctx_userId = IdStr ''u1''\<rparr>,
                  Connected ''s2'' \<lparr>ctx_userId = IdStr ''u2''\<rparr>],
      outside = u1_world\<rparr>"
  by (simp add: cross_post_def run_def two_tenants_def requireSession_qb_def jwt_verify_def
      session_cfg_def jwt_sign_def fresh_res_def empty_app_def
      stream_sessionId_def sse_def Let_def)

lemma tokB_verifies:
  "fst (requireSession_qb two_tenants (bearer_request ''tokB'' (Some ''s1'') 12) fresh_res)
     = Some \<lparr>ctx_userId = IdStr ''u2''\<rparr>"
  by (simp add: two_tenants_def requireSession_qb_def jwt_verify_def session_cfg_def jwt_sign_def)

theorem handled_under_own_token_witness:
  "fst (requireSession QuickBooks two_tenants (bearer_request ''tokB'' (Some ''s1'') 12) fresh_res)
     = Some \<lparr>ctx_userId = IdStr ''u2''\<rparr>
   \<and> activeTransports (run QuickBooks two_tenants (qb_tools quiet_env) empty_app (butlast cross_post))
       (post_sessionId (bearer_request ''tokB'' (Some ''s1'') 12)) = Some 0
   \<and> outside (fst (messages QuickBooks two_tenants (qb_tools quiet_env)
         (bearer_request ''tokB'' (Some ''s1'') 12)
         (run QuickBooks two_tenants (qb_tools quiet_env) empty_app (butlast cross_post))))
     = qb_tools quiet_env (Some \<lparr>ctx_userId = IdStr ''u2''\<rparr>) 0 ''customer/1'' u1_world
   \<and> Handled ''s1'' \<lparr>ctx_userId = IdStr ''u2''\<rparr> ''customer/1''
     \<in> set (observed (run QuickBooks two_tenants (qb_tools quiet_env) empty_app cross_post))
   \<and> Handled ''s1'' \<lparr>ctx_userId = IdStr ''u2''\<rparr> ''customer/1'' \<notin> set (observed empty_app)
   \<and> Connected ''s1'' \<lparr>ctx_userId = IdStr ''u1''\<rparr>
     \<in> set (observed (run QuickBooks two_tenants (qb_tools quiet_env) empty_app cross_post))
   \<and> Connected ''s1'' \<lparr>ctx_userId = IdStr ''u1''\<rparr> \<notin> set (observed empty_app)
   \<and> (\<exists>rq. PostMessages rq \<in> set cross_post
         \<and> fst (requireSession QuickBooks two_tenants rq fresh_res) = Some \<lparr>ctx_userId = IdStr ''u2''\<rparr>
         \<and> post_sessionId rq = ''s1'' \<and> body rq = ''customer/1'')
   \<and> (\<exists>rq tsid stream outcome. GetSse rq tsid stream outcome \<in> set cross_post
         \<and> fst (requireSession QuickBooks two_tenants rq fresh_res) = Some \<lparr>ctx_userId = IdStr ''u1''\<rparr>
         \<and> stream_sessionId tsid = ''s1'')"
  using handled_under_own_token
    [of QuickBooks two_tenants "bearer_request ''tokB'' (Some ''s1'') 12" "\<lparr>ctx_userId = IdStr ''u2''\<rparr>"
        "run QuickBooks two_tenants (qb_tools quiet_env) empty_app (butlast cross_post)"
        0 "qb_tools quiet_env" "''s1''" "\<lparr>ctx_userId = IdStr ''u2''\<rparr>" "''customer/1''" "[]"]
    handled_under_own_token
    [of QuickBooks two_tenants "bearer_request ''tokB'' (Some ''s1'') 12" "\<lparr>ctx_userId = IdStr ''u2''\<rparr>"
        empty_app 0 "qb_tools quiet_env" "''s1''" "\<lparr>ctx_userId = IdStr ''u2''\<rparr>" "''customer/1''"
        cross_post]
    handled_under_own_token
    [of QuickBooks two_tenants "bearer_request ''tokB'' (Some ''s1'') 12" "\<lparr>ctx_userId = IdStr ''u2''\<rparr>"
        empty_app 0 "qb_tools quiet_env" "''s1''" "\<lparr>ctx_userId = IdStr ''u1''\<rparr>" "''customer/1''"
        cross_post]
  by (simp add: cross_post_run two_streams_run empty_app_def [THEN arg_cong, of observed]
      tokB_verifies post_sessionId_def)

section \<open>The orchestrator: properties\<close>

lemma chat_forwarded:
  assumes "chat cfg now message w = (Forwarded t, w')"
  shows "j_userId t = Some (IdNum 1)"
    and "signed_with t = b_SESSION_JWT_SECRET cfg"
    and "j_aud t = Some (b_SESSION_JWT_AUDIENCE cfg)"
    and "w' = w\<lparr>trace := trace w @ [DbSelect ''1'' ''quickbooks'']\<rparr>"
  using assms getTokens_world [of "IdNum 1" "''quickbooks''" w]
  by (auto simp: chat_def isQboConnected_def jwt_sign_def Number_toString_def digit_char_def
      split: if_splits prod.splits sum.splits option.splits)

lemma requireSession_Some:
  assumes "fst (requireSession srv scfg req res) = Some c"
    and "jwt_decode scfg (bearer_token req) = Some t"
  shows "String_js (ctx_userId c) = String_js (the (j_userId t))"
    and "c = (if srv = QuickBooksSandbox then \<lparr>ctx_userId = the (j_userId t)\<rparr>
             else \<lparr>ctx_userId = IdStr (String_js (the (j_userId t)))\<rparr>)"
  using assms
  by (cases srv;
      auto simp: requireSession_sandbox_def requireSession_qb_def requireSession_hcp_def
        jwt_verify_def invalid_session_def split: if_splits sum.splits option.splits)+

lemma getTokens_by_text:
  "String_js u = String_js v \<Longrightarrow> getTokens u p w = getTokens v p w"
  by (simp add: getTokens_def)

text \<open>
  C9. Every session token the \<open>/chat\<close> endpoint mints carries \<open>userId = 1\<close>, whatever the
  request, and its pre-flight check reads the credential stored for user 1 and
  \<open>quickbooks\<close>. So for any two \<open>/chat\<close> requests, the sessions their tokens open on a
  tool server run under the same context, and that context's credential lookup is the
  lookup for user 1.
\<close>

theorem chat_single_tenant:
  assumes "chat cfg now1 m1 w1 = (Forwarded t1, w1')" and "chat cfg now2 m2 w2 = (Forwarded t2, w2')"
    and "jwt_decode scfg (bearer_token req1) = Some t1" and "jwt_decode scfg (bearer_token req2) = Some t2"
    and "fst (requireSession srv scfg req1 res1) = Some c1"
    and "fst (requireSession srv scfg req2 res2) = Some c2"
  shows "j_userId t1 = Some (IdNum 1) \<and> j_userId t2 = Some (IdNum 1)
       \<and> trace w1' = trace w1 @ [DbSelect ''1'' ''quickbooks'']
       \<and> trace w2' = trace w2 @ [DbSelect ''1'' ''quickbooks'']
       \<and> c1 = c2 \<and> String_js (ctx_userId c1) = ''1''
       \<and> getTokens (ctx_userId c1) ''quickbooks'' w = getTokens (IdNum 1) ''quickbooks'' w
       \<and> getTokens (ctx_userId c2) ''quickbooks'' w = getTokens (IdNum 1) ''quickbooks'' w"
proof -
  have u: "j_userId t1 = Some (IdNum 1)" "j_userId t2 = Some (IdNum 1)"
    using chat_forwarded(1) assms(1,2) by blast+
  have tr: "trace w1' = trace w1 @ [DbSelect ''1'' ''quickbooks'']"
       "trace w2' = trace w2 @ [DbSelect ''1'' ''quickbooks'']"
    using chat_forwarded(4) [OF assms(1)] chat_forwarded(4) [OF assms(2)] by simp_all
  have c: "c1 = c2"
    using requireSession_Some(2) [OF assms(5) assms(3)] requireSession_Some(2) [OF assms(6) assms(4)] u
    by simp
  have s: "String_js (ctx_userId c1) = ''1''"
    using requireSession_Some(1) [OF assms(5) assms(3)] u by (simp add: Number_toString_1)
  have g: "getTokens (ctx_userId c1) ''quickbooks'' w = getTokens (IdNum 1) ''quickbooks'' w"
    using s by (intro getTokens_by_text) (simp add: Number_toString_1)
  show ?thesis using u tr c s g by simp
qed

theorem chat_single_tenant_witness:
  "chat backend_cfg 100 (Some (JStr ''hello'')) tenant1_world
     = (Forwarded (jwt_sign (IdNum 1) 100 ''secret'' ''mcp'' ''backend'' 3600),
        tenant1_world\<lparr>trace := [DbSelect ''1'' ''quickbooks'']\<rparr>)
   \<and> chat backend_cfg 200 (Some (JStr ''list my invoices'')) tenant1_world
     = (Forwarded (jwt_sign (IdNum 1) 200 ''secret'' ''mcp'' ''backend'' 3600),
        tenant1_world\<lparr>trace := [DbSelect ''1'' ''quickbooks'']\<rparr>)
   \<and> jwt_decode chat_tokens (bearer_token (bearer_request ''tok1'' None 150))
     = Some (jwt_sign (IdNum 1) 100 ''secret'' ''mcp'' ''backend'' 3600)
   \<and> jwt_decode chat_tokens (bearer_token (bearer_request ''tok2'' None 250))
     = Some (jwt_sign (IdNum 1) 200 ''secret'' ''mcp'' ''backend'' 3600)
   \<and> fst (requireSession QuickBooks chat_tokens (bearer_request ''tok1'' None 150) fresh_res)
     = Some \<lparr>ctx_userId = IdStr ''1''\<rparr>
   \<and> fst (requireSession QuickBooks chat_tokens (bearer_request ''tok2'' None 250) fresh_res)
     = Some \<lparr>ctx_userId = IdStr ''1''\<rparr>
   \<and> getTokens (IdStr ''1'') ''quickbooks'' tenant1_world
     = getTokens (IdNum 1) ''quickbooks'' tenant1_world"
  using chat_single_tenant
    [of backend_cfg 100 "Some (JStr ''hello'')" tenant1_world
        "jwt_sign (IdNum 1) 100 ''secret'' ''mcp'' ''backend'' 3600"
        "tenant1_world\<lparr>trace := [DbSelect ''1'' ''quickbooks'']\<rparr>"
        200 "Some (JStr ''list my invoices'')" tenant1_world
        "jwt_sign (IdNum 1) 200 ''secret'' ''mcp'' ''backend'' 3600"
        "tenant1_world\<lparr>trace := [DbSelect ''1'' ''quickbooks'']\<rparr>"
        chat_tokens "bearer_request ''tok1'' None 150" "bearer_request ''tok2'' None 250"
        QuickBooks fresh_res "\<lparr>ctx_userId = IdStr ''1''\<rparr>" fresh_res "\<lparr>ctx_userId = IdStr ''1''\<rparr>"
        tenant1_world]
  by (simp add: chat_def isQboConnected_def backend_cfg_def tenant1_world_def chat_tokens_def
      session_cfg_def requireSession_qb_def jwt_verify_def jwt_sign_def
      getTokens_def select_single_def key_is_def normalize_row_def
      Number_toString_def digit_char_def Let_def)

section \<open>The email tool server: properties\<close>

lemma call_api_state:
  "snd (call_api api c st) = st\<lparr>calls := calls st @ [(credentials st, c)]\<rparr>"
  by (simp add: call_api_def)

lemma under_refl: "under cr st st"
  by (simp add: under_def)

lemma under_call:
  "under cr st st1 \<Longrightarrow> credentials st1 = cr \<Longrightarrow> under cr st (snd (call_api api c st1))"
  by (auto simp: under_def call_api_def)

lemma under_details:
  "under cr st st1 \<Longrightarrow> credentials st1 = cr \<Longrightarrow> under cr st (snd (get_details api fmt ids st1))"
proof (induction ids arbitrary: st1)
  case Nil
  then show ?case by simp
next
  case (Cons i ids)
  let ?st2 = "snd (call_api api (GetMessage i fmt) st1)"
  have u: "under cr st ?st2" using Cons.prems by (rule under_call)
  have c: "credentials ?st2 = cr" using Cons.prems(2) by (simp add: call_api_def)
  show ?case
  proof (cases "fst (call_api api (GetMessage i fmt) st1)")
    case None
    then show ?thesis using u by (simp add: case_prod_beta)
  next
    case (Some r)
    then show ?thesis using Cons.IH [OF u c] by (simp add: case_prod_beta)
  qed
qed

lemma under_set:
  "under (Some toks) st (st\<lparr>credentials := Some toks\<rparr>)"
  by (simp add: under_def)

lemma gmail_under:
  "under (userTokens st ''user1'') st (snd (gmail e api req st))"
proof (cases "userTokens st ''user1''")
  case None
  then show ?thesis
    by (cases e)
       (simp_all add: gmail_send_def gmail_messages_def gmail_search_def gmail_mark_def
          gmail_labels_def under_refl)
next
  case (Some toks)
  let ?st1 = "st\<lparr>credentials := Some toks\<rparr>"
  have s: "under (Some toks) st ?st1" by (rule under_set)
  have c: "\<And>call. under (Some toks) st (snd (call_api api call ?st1))"
    using s by (rule under_call) simp
  have d: "\<And>call fmt ids. under (Some toks) st (snd (get_details api fmt ids (snd (call_api api call ?st1))))"
    using c by (rule under_details) (simp add: call_api_def)
  show ?thesis
  proof (cases e)
    case GmailSend
    then show ?thesis using Some c
      by (simp add: gmail_send_def Let_def case_prod_beta under_refl split: option.split)
  next
    case GmailMessages
    then show ?thesis using Some c d
      by (simp add: gmail_messages_def Let_def case_prod_beta split: option.split bool.split)
  next
    case GmailSearch
    then show ?thesis using Some c d
      by (simp add: gmail_search_def Let_def case_prod_beta under_refl split: option.split bool.split)
  next
    case GmailMark
    then show ?thesis using Some c s
      by (simp add: gmail_mark_def Let_def case_prod_beta split: option.split)
  next
    case GmailLabels
    then show ?thesis using Some c
      by (simp add: gmail_labels_def Let_def case_prod_beta split: option.split)
  qed
qed

lemma gmail_caller:
  "gmail e api (req\<lparr>caller := c1\<rparr>) st = gmail e api (req\<lparr>caller := c2\<rparr>) st"
  by (cases e)
     (simp_all add: gmail_send_def gmail_messages_def gmail_search_def gmail_mark_def gmail_labels_def
        Let_def cong: option.case_cong if_cong)


lemma gmail_callback_caller:
  "gmail_callback getToken (req\<lparr>caller := c1\<rparr>) st = gmail_callback getToken (req\<lparr>caller := c2\<rparr>) st"
  by (simp add: gmail_callback_def)

text \<open>
  C10. On every \<open>/gmail/*\<close> endpoint the outcome does not depend on who calls: two
  requests that differ only in their caller get the same reply and leave the same
  state, no session token being looked at. The stored tokens are not changed, and every
  Gmail API call the handler makes goes out under the tokens stored under the key
  \<open>user1\<close>. The OAuth callback stores the tokens it obtains under that same key,
  whoever completes it.
\<close>

theorem gmail_fixed_credential:
  "gmail e api (req\<lparr>caller := c1\<rparr>) st = gmail e api (req\<lparr>caller := c2\<rparr>) st
   \<and> gmail_callback getToken (req\<lparr>caller := c1\<rparr>) st = gmail_callback getToken (req\<lparr>caller := c2\<rparr>) st
   \<and> userTokens (snd (gmail e api req st)) = userTokens st
   \<and> (\<exists>cs. calls (snd (gmail e api req st)) = calls st @ cs
            \<and> (\<forall>x\<in>set cs. fst x = userTokens st ''user1''))
   \<and> (truthy_str (g_code req) \<and> getToken (the (g_code req)) = Some toks \<longrightarrow>
        userTokens (snd (gmail_callback getToken req st)) = (userTokens st)(''user1'' \<mapsto> toks))"
proof -
  have u: "userTokens (snd (gmail e api req st)) = userTokens st
     \<and> (\<exists>cs. calls (snd (gmail e api req st)) = calls st @ cs
            \<and> (\<forall>x\<in>set cs. fst x = userTokens st ''user1''))"
    using gmail_under [of st e api req] by (simp add: under_def)
  have c: "truthy_str (g_code req) \<and> getToken (the (g_code req)) = Some toks \<longrightarrow>
        userTokens (snd (gmail_callback getToken req st)) = (userTokens st)(''user1'' \<mapsto> toks)"
    by (cases "g_code req") (auto simp: gmail_callback_def)
  show ?thesis
    using u c gmail_caller [where e = e and api = api and req = req and ?c1.0 = c1 and st = st and ?c2.0 = c2]
      gmail_callback_caller [where getToken = getToken and req = req and ?c1.0 = c1 and st = st and ?c2.0 = c2]
    by blast
qed

theorem gmail_fixed_credential_witness:
  "truthy_str (g_code (mail_request ''alice''))
   \<and> userTokens (snd (gmail_callback mail_getToken (mail_request ''alice'')
         disconnected_mail)) = [''user1'' \<mapsto> ''gmail-tokens'']
   \<and> gmail GmailSend mail_api ((mail_request ''alice'')\<lparr>caller := ''alice''\<rparr>) connected_mail
     = gmail GmailSend mail_api ((mail_request ''alice'')\<lparr>caller := ''mallory''\<rparr>) connected_mail
   \<and> calls (snd (gmail GmailSend mail_api (mail_request ''mallory'') connected_mail))
     = [(Some ''gmail-tokens'',
         SendRaw [''To: bob@example.com'', ''Subject: Hi'',
                  ''Content-Type: text/html; charset=utf-8'', [], ''Hello''])]"
  using gmail_fixed_credential
    [where e = GmailSend and api = mail_api and req = "mail_request ''alice''" and ?c1.0 = "''alice''"
       and st = connected_mail and ?c2.0 = "''mallory''"
       and getToken = mail_getToken and toks = "''gmail-tokens''"]
    gmail_fixed_credential
    [where e = GmailSend and api = mail_api and req = "mail_request ''alice''" and ?c1.0 = "''alice''"
       and st = disconnected_mail and ?c2.0 = "''mallory''"
       and getToken = mail_getToken and toks = "''gmail-tokens''"]
  by (simp add: mail_request_def connected_mail_def disconnected_mail_def mail_api_def
      mail_getToken_def gmail_send_def gmail_callback_def call_api_def Let_def)

section \<open>The refresh-once policy\<close>

text \<open>
  One call of \<open>qbRequest\<close>, in either QuickBooks server and on every input, calls the
  token endpoint at most once and the API at most twice.
\<close>

lemma qbRequest_refresh_once:
  "refreshes (snd (qbRequest ev store endpoint os w)) \<le> refreshes w + 1"
  "fetches (snd (qbRequest ev store endpoint os w)) \<le> fetches w + 2"
  "refreshes (snd (qbRequest_sandbox ev store endpoint os w)) \<le> refreshes w + 1"
  "fetches (snd (qbRequest_sandbox ev store endpoint os w)) \<le> fetches w + 2"
  using qbRequest_with_refreshes [of isAuthError "QB_API_BASE ev" ev store endpoint os w]
    qbRequest_with_fetches [of isAuthError "QB_API_BASE ev" ev store endpoint os w]
    qbRequest_with_refreshes [of isAuthError_sandbox "''https://sandbox-quickbooks.api.intuit.com''" ev store endpoint os w]
    qbRequest_with_fetches [of isAuthError_sandbox "''https://sandbox-quickbooks.api.intuit.com''" ev store endpoint os w]
  by (simp_all add: qbRequest_def qbRequest_sandbox_def)

text \<open>
  In the server with the configurable API base: with a context bound and a stored
  credential that has a refresh token, a first response that is an authorization
  failure (a 401, or a 400 whose body contains \<open>3100\<close>), a refresh that succeeds and a
  retried response that is again an authorization failure, the call raises
  \<open>Unauthorized after refresh\<close> after exactly two requests and one refresh, and the stored
  credential is the refreshed one.
\<close>

lemma qbRequest_unauthorized_after_refresh:
  assumes db: "db_fault w = None" "distinct (map row_key (tokens w))"
    and row: "filter (key_is (String_js (ctx_userId ctx)) ''quickbooks'') (tokens w) = [r]"
    and cred: "access_token r \<noteq> []" "realm_id r = Some realm" "realm \<noteq> []"
        "truthy_str (refresh_token r)"
    and u: "u = build_url (QB_API_BASE ev) realm endpoint (MINOR_VERSION ev)"
    and first: "qbo_api ev (fetches w) (fetch_request u os (access_token r)) = Some resp1"
        "isAuthError resp1"
    and refresh: "token_endpoint ev (form_value (refresh_token r)) = Some tresp" "ok tresp"
        "tj_access_token (json_body tresp) \<noteq> []"
    and second: "qbo_api ev (Suc (fetches w)) (fetch_request u os (tj_access_token (json_body tresp)))
                   = Some resp2" "isAuthError resp2"
  shows "fst (qbRequest ev (Some ctx) endpoint os w) = Inl UnauthorizedAfterRefresh"
    and "fetches (snd (qbRequest ev (Some ctx) endpoint os w)) = fetches w + 2"
    and "refreshes (snd (qbRequest ev (Some ctx) endpoint os w)) = refreshes w + 1"
    and "tokens (snd (qbRequest ev (Some ctx) endpoint os w)) =
           upsert_row (refreshed_row ev tresp (refresh_token r) (ctx_userId ctx) (Some realm)) (tokens w)"
proof -
  have n1: "\<not> ok resp1" and n2: "\<not> ok resp2"
    using first(2) second(2) by (simp_all add: isAuthError_not_ok)
  note e = qbRequest_with_second_failure
    [where auth = isAuthError and base = "QB_API_BASE ev",
     OF db row cred u first(1) n1 first(2) refresh second(1) n2]
  show "fst (qbRequest ev (Some ctx) endpoint os w) = Inl UnauthorizedAfterRefresh"
    using second(2) by (simp add: qbRequest_def e)
  show "fetches (snd (qbRequest ev (Some ctx) endpoint os w)) = fetches w + 2"
    by (simp add: qbRequest_def e fetches_def)
  show "refreshes (snd (qbRequest ev (Some ctx) endpoint os w)) = refreshes w + 1"
    by (simp add: qbRequest_def e refreshes_def)
  show "tokens (snd (qbRequest ev (Some ctx) endpoint os w)) =
           upsert_row (refreshed_row ev tresp (refresh_token r) (ctx_userId ctx) (Some realm)) (tokens w)"
    by (simp add: qbRequest_def e)
qed

text \<open>
  In the sandbox server the same holds for a 401 followed by a 401; any other failure of
  the retried request, a 400 with \<open>3100\<close> included, raises the upstream error.
\<close>

lemma qbRequest_sandbox_unauthorized_after_refresh:
  assumes db: "db_fault w = None" "distinct (map row_key (tokens w))"
    and row: "filter (key_is (String_js (ctx_userId ctx)) ''quickbooks'') (tokens w) = [r]"
    and cred: "access_token r \<noteq> []" "realm_id r = Some realm" "realm \<noteq> []"
        "truthy_str (refresh_token r)"
    and u: "u = build_url ''https://sandbox-quickbooks.api.intuit.com'' realm endpoint (MINOR_VERSION ev)"
    and first: "qbo_api ev (fetches w) (fetch_request u os (access_token r)) = Some resp1"
        "status resp1 = 401"
    and refresh: "token_endpoint ev (form_value (refresh_token r)) = Some tresp" "ok tresp"
        "tj_access_token (json_body tresp) \<noteq> []"
    and second: "qbo_api ev (Suc (fetches w)) (fetch_request u os (tj_access_token (json_body tresp)))
                   = Some resp2" "\<not> ok resp2"
  shows "fst (qbRequest_sandbox ev (Some ctx) endpoint os w) =
           (if status resp2 = 401 then Inl UnauthorizedAfterRefresh
            else Inl (QboError (status resp2) (body_text resp2)))"
    and "fetches (snd (qbRequest_sandbox ev (Some ctx) endpoint os w)) = fetches w + 2"
    and "refreshes (snd (qbRequest_sandbox ev (Some ctx) endpoint os w)) = refreshes w + 1"
proof -
  have a1: "isAuthError_sandbox resp1" using first(2) by (simp add: isAuthError_sandbox_def)
  have n1: "\<not> ok resp1" using a1 by (rule isAuthError_sandbox_not_ok)
  note e = qbRequest_with_second_failure
    [where auth = isAuthError_sandbox and base = "''https://sandbox-quickbooks.api.intuit.com''",
     OF db row cred u first(1) n1 a1 refresh second]
  show "fst (qbRequest_sandbox ev (Some ctx) endpoint os w) =
           (if status resp2 = 401 then Inl UnauthorizedAfterRefresh
            else Inl (QboError (status resp2) (body_text resp2)))"
    by (simp add: qbRequest_sandbox_def e isAuthError_sandbox_def)
  show "fetches (snd (qbRequest_sandbox ev (Some ctx) endpoint os w)) = fetches w + 2"
    by (simp add: qbRequest_sandbox_def e fetches_def)
  show "refreshes (snd (qbRequest_sandbox ev (Some ctx) endpoint os w)) = refreshes w + 1"
    by (simp add: qbRequest_sandbox_def e refreshes_def)
qed


text \<open>
  The end-to-end scenario: the stale token is refused with 401, one refresh follows, the
  retry with the new token succeeds, and the record has the new access token and the
  account handle it had.
\<close>

lemma stale_token_refreshed_once:
  "qbRequest (scenario_env (grant (Some 3600)) \<lparr>status = 401, body_text = ''expired''\<rparr>
                \<lparr>status = 200, body_text = []\<rparr>)
      (Some u1_ctx) ''customer/1'' no_opts u1_world =
     (Inr (JObj []),
      \<lparr>tokens = [\<lparr>user_id = ''u1'', provider = ''quickbooks'', access_token = ''fresh'',
                   refresh_token = Some ''refresh-1'', realm_id = Some ''realm-9'',
                   expires_at = Some 4600\<rparr>],
       db_fault = None,
       trace =
         [DbSelect ''u1'' ''quickbooks'',
          ApiFetch \<lparr>url = ''https://quickbooks.api.intuit.com/v3/company/realm-9/customer/1?minorversion=75'',
                    verb = ''GET'', bearer = ''stale'', content = None\<rparr>,
          TokenEndpoint ''refresh-1'',
          DbUpsert \<lparr>user_id = ''u1'', provider = ''quickbooks'', access_token = ''fresh'',
                    refresh_token = Some ''refresh-1'', realm_id = Some ''realm-9'',
                    expires_at = Some 4600\<rparr>,
          DbSelect ''u1'' ''quickbooks'',
          ApiFetch \<lparr>url = ''https://quickbooks.api.intuit.com/v3/company/realm-9/customer/1?minorversion=75'',
                    verb = ''GET'', bearer = ''fresh'', content = None\<rparr>]\<rparr>)"
  by (simp add: fixture_defs qbRequest_def qbRequest_with_def
      refresh_and_retry_def doFetch_def fetch_request_def build_url_def isAuthError_def
      needRefresh_def needRefresh_obj_def fetches_def
      refreshWithQbo_def form_value_def ok_def Let_def upsertTokens_def
      payload_of_def getTokens_def select_single_def key_is_def row_key_def normalize_row_def)

text \<open>
  C2 fails on the sandbox server. A 400 whose body contains \<open>3100\<close> is an authorization
  failure in the claim's sense. When the retried request gets it, the sandbox server
  raises the upstream error \<open>QBO error: 400\<close>, where the other server raises
  \<open>Unauthorized after refresh\<close>; and when the first request gets it, the sandbox server
  raises the upstream error without any refresh.
\<close>

theorem sandbox_retry_400_3100:
  "isAuthError \<lparr>status = 400, body_text = ''error 3100''\<rparr>
   \<and> fst (qbRequest_sandbox
           (scenario_env (grant (Some 3600)) \<lparr>status = 401, body_text = ''expired''\<rparr>
              \<lparr>status = 400, body_text = ''error 3100''\<rparr>)
           (Some u1_ctx) ''customer/1'' no_opts u1_world) = Inl (QboError 400 ''error 3100'')
   \<and> fst (qbRequest
           (scenario_env (grant (Some 3600)) \<lparr>status = 401, body_text = ''expired''\<rparr>
              \<lparr>status = 400, body_text = ''error 3100''\<rparr>)
           (Some u1_ctx) ''customer/1'' no_opts u1_world) = Inl UnauthorizedAfterRefresh
   \<and> fst (qbRequest_sandbox
           (scenario_env (grant (Some 3600)) \<lparr>status = 400, body_text = ''error 3100''\<rparr>
              \<lparr>status = 200, body_text = []\<rparr>)
           (Some u1_ctx) ''customer/1'' no_opts u1_world) = Inl (QboError 400 ''error 3100'')
   \<and> refreshes (snd (qbRequest_sandbox
           (scenario_env (grant (Some 3600)) \<lparr>status = 400, body_text = ''error 3100''\<rparr>
              \<lparr>status = 200, body_text = []\<rparr>)
           (Some u1_ctx) ''customer/1'' no_opts u1_world)) = 0"
  by (simp add: fixture_defs qbRequest_sandbox_def qbRequest_def qbRequest_with_def
      refresh_and_retry_def doFetch_def fetch_request_def build_url_def isAuthError_def
      isAuthError_sandbox_def needRefresh_def needRefresh_obj_def fetches_def refreshes_def
      refreshWithQbo_def form_value_def ok_def Let_def upsertTokens_def
      payload_of_def getTokens_def select_single_def key_is_def row_key_def normalize_row_def)

end
